theory Spec2Isabelle
  imports Main "HOL-Library.Sublist"
begin

section \<open>JavaScript values used by the server\<close>

text \<open>
  The server of \<^verbatim>\<open>src/index.ts\<close> moves JSON values between an MCP caller and the
  upstream HTTP API. A decoded JSON value is a \<open>json\<close>; an object keeps its properties in
  order, as an association list. Numbers are integers here, printed in decimal (the code
  never computes with them, it only passes them on and prints them).
  A string is the list of its characters. A JavaScript value that may be
  \<^verbatim>\<open>undefined\<close> is an \<open>option\<close>, with \<open>None\<close> for \<^verbatim>\<open>undefined\<close>.
\<close>

datatype json =
    JNull
  | JBool bool
  | JNum int
  | JStr string
  | JArr "json list"
  | JObj "(string \<times> json) list"

text \<open>Truthiness, as \<^verbatim>\<open>||\<close>, \<^verbatim>\<open>&&\<close>, \<^verbatim>\<open>!\<close> and \<^verbatim>\<open>?:\<close> test it.\<close>

fun truthy :: "json \<Rightarrow> bool" where
  "truthy JNull = False"
| "truthy (JBool b) = b"
| "truthy (JNum n) = (n \<noteq> 0)"
| "truthy (JStr s) = (s \<noteq> [])"
| "truthy (JArr xs) = True"
| "truthy (JObj kvs) = True"

text \<open>A string that may be undefined: truthy when it is defined and not empty.\<close>

definition truthy_str :: "string option \<Rightarrow> bool" where
  "truthy_str v = (case v of None \<Rightarrow> False | Some s \<Rightarrow> s \<noteq> [])"

text \<open>\<^verbatim>\<open>a || b\<close> on such strings: the left operand when truthy, else the right one.\<close>

definition js_or :: "string option \<Rightarrow> string option \<Rightarrow> string option" where
  "js_or a b = (if truthy_str a then a else b)"

subsection \<open>Numbers as text\<close>

definition digit_char :: "nat \<Rightarrow> char" where
  "digit_char d = ''0123456789'' ! d"

fun show_nat :: "nat \<Rightarrow> string" where
  "show_nat n = (if n < 10 then [digit_char n] else show_nat (n div 10) @ [digit_char (n mod 10)])"

declare show_nat.simps [simp del]

definition show_int :: "int \<Rightarrow> string" where
  "show_int i = (if i < 0 then CHR ''-'' # show_nat (nat (- i)) else show_nat (nat i))"

subsection \<open>\<^verbatim>\<open>JSON.stringify\<close>\<close>

text \<open>
  \<^verbatim>\<open>JSON.stringify(value)\<close> and \<^verbatim>\<open>JSON.stringify(value, null, 2)\<close>, following
  the abstract operations of ECMAScript: \<open>QuoteJSONString\<close> escapes the quote, the
  backslash and the control characters; \<open>SerializeJSONProperty\<close> takes the gap (empty,
  or two spaces) and the current indentation.
\<close>

definition hex_char :: "nat \<Rightarrow> char" where
  "hex_char d = ''0123456789abcdef'' ! d"

definition quote_char :: "char \<Rightarrow> string" where
  "quote_char c =
     (if c = CHR 0x22 then [CHR 0x5C, CHR 0x22]
      else if c = CHR 0x5C then [CHR 0x5C, CHR 0x5C]
      else if c = CHR 0x08 then [CHR 0x5C, CHR ''b'']
      else if c = CHR 0x0C then [CHR 0x5C, CHR ''f'']
      else if c = CHR 0x0A then [CHR 0x5C, CHR ''n'']
      else if c = CHR 0x0D then [CHR 0x5C, CHR ''r'']
      else if c = CHR 0x09 then [CHR 0x5C, CHR ''t'']
      else if (of_char c :: nat) < 32
        then [CHR 0x5C, CHR ''u'', CHR ''0'', CHR ''0'',
              hex_char ((of_char c :: nat) div 16), hex_char ((of_char c :: nat) mod 16)]
      else [c])"

definition QuoteJSONString :: "string \<Rightarrow> string" where
  "QuoteJSONString s = [CHR 0x22] @ concat (map quote_char s) @ [CHR 0x22]"

fun join :: "string \<Rightarrow> string list \<Rightarrow> string" where
  "join sep [] = []"
| "join sep [x] = x"
| "join sep (x # y # ys) = x @ sep @ join sep (y # ys)"

fun SerializeJSONProperty :: "string \<Rightarrow> string \<Rightarrow> json \<Rightarrow> string" where
  "SerializeJSONProperty gap indent JNull = ''null''"
| "SerializeJSONProperty gap indent (JBool b) = (if b then ''true'' else ''false'')"
| "SerializeJSONProperty gap indent (JNum n) = show_int n"
| "SerializeJSONProperty gap indent (JStr s) = QuoteJSONString s"
| "SerializeJSONProperty gap indent (JArr xs) =
     (let stepback = indent;
          indent' = indent @ gap;
          partial = map (SerializeJSONProperty gap indent') xs
      in if partial = [] then ''[]''
         else if gap = [] then ''['' @ join '','' partial @ '']''
         else ''['' @ [CHR 0x0A] @ indent' @ join ('','' @ [CHR 0x0A] @ indent') partial
              @ [CHR 0x0A] @ stepback @ '']'')"
| "SerializeJSONProperty gap indent (JObj kvs) =
     (let stepback = indent;
          indent' = indent @ gap;
          partial = map (\<lambda>(k, v). QuoteJSONString k @ '':'' @ (if gap = [] then [] else '' '')
                                   @ SerializeJSONProperty gap indent' v) kvs
      in if partial = [] then ''{}''
         else if gap = [] then ''{'' @ join '','' partial @ ''}''
         else ''{'' @ [CHR 0x0A] @ indent' @ join ('','' @ [CHR 0x0A] @ indent') partial
              @ [CHR 0x0A] @ stepback @ ''}'')"

text \<open>\<^verbatim>\<open>JSON.stringify(v)\<close>: no gap.\<close>

definition JSON_stringify :: "json \<Rightarrow> string" where
  "JSON_stringify v = SerializeJSONProperty [] [] v"

text \<open>\<^verbatim>\<open>JSON.stringify(v, null, n)\<close>: the gap is \<open>n\<close> spaces (at most ten).\<close>

definition JSON_stringify_space :: "json \<Rightarrow> nat \<Rightarrow> string" where
  "JSON_stringify_space v n = SerializeJSONProperty (replicate (min n 10) CHR '' '') [] v"

text \<open>
  An object literal some of whose property values may be \<^verbatim>\<open>undefined\<close>, such as
  \<^verbatim>\<open>{ name, arguments }\<close>. The code only serialises such objects, and
  \<^verbatim>\<open>JSON.stringify\<close> leaves out a property whose value is undefined.
\<close>

definition object_literal :: "(string \<times> json option) list \<Rightarrow> json" where
  "object_literal ps = JObj (List.map_filter (\<lambda>(k, v). map_option (\<lambda>x. (k, x)) v) ps)"

subsection \<open>Errors\<close>

text \<open>
  \<open>ErrorCode\<close> and \<open>McpError\<close> come from the MCP SDK (lines 5 to 11); the
  code uses two of the codes. The constructor of \<open>McpError\<close> takes the code and a message,
  and the \<^verbatim>\<open>message\<close> property of the resulting object is
  \<^verbatim>\<open>`MCP error ${code}: ${message}`\<close>. The runtime's own errors are a
  \<open>TypeError\<close> (a rejected \<^verbatim>\<open>fetch\<close>, a property read on undefined or null) and a
  \<open>SyntaxError\<close> (a body that is not JSON); both carry their message.
\<close>

datatype ErrorCode = InvalidParams | InternalError

definition ErrorCode_number :: "ErrorCode \<Rightarrow> int" where
  "ErrorCode_number c = (case c of InvalidParams \<Rightarrow> - 32602 | InternalError \<Rightarrow> - 32603)"

datatype js_error =
    McpError ErrorCode string
  | TypeError string
  | SyntaxError string

fun message_of :: "js_error \<Rightarrow> string" where
  "message_of (McpError c m) = ''MCP error '' @ show_int (ErrorCode_number c) @ '': '' @ m"
| "message_of (TypeError m) = m"
| "message_of (SyntaxError m) = m"

text \<open>
  Reading property \<open>k\<close> of a value, as \<^verbatim>\<open>data.tools\<close> and \<^verbatim>\<open>tools.length\<close>
  do: a \<open>TypeError\<close> on undefined and on null (with the message of Node's engine), the
  own property of an object, the length of an array or of a string, and undefined for
  every other read the code can make (the two keys it reads are \<^verbatim>\<open>tools\<close> and
  \<^verbatim>\<open>length\<close>).
\<close>

fun get_prop :: "json option \<Rightarrow> string \<Rightarrow> js_error + json option" where
  "get_prop None k =
     Inl (TypeError (''Cannot read properties of undefined (reading '' @ [CHR 0x27] @ k @ [CHR 0x27] @ '')''))"
| "get_prop (Some JNull) k =
     Inl (TypeError (''Cannot read properties of null (reading '' @ [CHR 0x27] @ k @ [CHR 0x27] @ '')''))"
| "get_prop (Some (JObj kvs)) k = Inr (map_of kvs k)"
| "get_prop (Some (JArr xs)) k = Inr (if k = ''length'' then Some (JNum (int (length xs))) else None)"
| "get_prop (Some (JStr s)) k = Inr (if k = ''length'' then Some (JNum (int (length s))) else None)"
| "get_prop (Some (JNum n)) k = Inr None"
| "get_prop (Some (JBool b)) k = Inr None"

section \<open>The world outside the program\<close>

text \<open>
  What the program sends and receives over HTTP, as \<^verbatim>\<open>fetch\<close> shows it. A response
  is one that has arrived: its status line and its body text; \<open>decoded\<close> is what
  \<^verbatim>\<open>response.json()\<close> settles to, the decoded body or the error of the decoder.
  A connection that fails is a \<^verbatim>\<open>fetch\<close> that rejects.
\<close>

record http_request =
  url :: string
  method' :: string
  headers :: "(string \<times> string) list"
  body :: "string option"

record response =
  status :: nat
  statusText :: string
  body_text :: string
  decoded :: "js_error + json"

text \<open>\<^verbatim>\<open>response.ok\<close>: the status is in the range 200 to 299.\<close>

definition ok :: "response \<Rightarrow> bool" where
  "ok r = (200 \<le> status r \<and> status r \<le> 299)"

text \<open>
  An incoming MCP request: the authenticated values the caller attached to it, and for a
  call the tool's name and its arguments (which may be absent).
  \<open>getAuthValue\<close> is the SDK helper of line 2, which extracts the authenticated value of
  a given name from a request.
\<close>

record request =
  auth :: "(string \<times> string) list"
  name :: string
  arguments :: "json option"

definition getAuthValue :: "request \<Rightarrow> string \<Rightarrow> string option" where
  "getAuthValue r k = map_of (auth r) k"

text \<open>
  \<^verbatim>\<open>Number(port)\<close> is passed on to the transport as it is; the conversion is not
  interpreted here.
\<close>

datatype js_number = Number json

datatype transport =
    RestServerTransport js_number string
  | StdioServerTransport

text \<open>
  Every effect of the program is an event, and a run of the program extends the list of
  the events so far, oldest first.
\<close>

datatype event =
    ConsoleLog string
  | ConsoleError string
  | AppendFile string
  | NewAI302Api string
  | FetchCall http_request
  | NewTransport transport
  | Connect transport
  | StartServer
  | ProcessExit nat

type_synonym io = "event list"

text \<open>
  What the program reads from outside: the start parameters (\<open>getParamValue\<close>, the SDK
  helper of line 2), the environment, the clock, whether an append to the log file fails
  (and with what), what the upstream answers, how a URL with its search parameters
  prints, and whether attaching or starting a transport fails. The clock and the file
  system are asked at a moment, given by the number of events so far.
\<close>

record world =
  getParamValue :: "string \<Rightarrow> string option"
  process_env :: "string \<Rightarrow> string option"
  now :: "nat \<Rightarrow> string"
  appendFileSync_error :: "nat \<Rightarrow> string option"
  fetch :: "http_request \<Rightarrow> js_error + response"
  URL_toString :: "string \<Rightarrow> (string \<times> string) list \<Rightarrow> js_error + string"
  connect_error :: "transport \<Rightarrow> js_error option"
  startServer_error :: "js_error option"

section \<open>The program\<close>

subsection \<open>Start parameters (lines 18 to 21)\<close>

definition ai302ApiKey :: "world \<Rightarrow> string option" where
  "ai302ApiKey w = getParamValue w ''302ai_api_key''"

definition mode :: "world \<Rightarrow> string" where
  "mode w = (case js_or (getParamValue w ''mode'') (Some ''stdio'') of Some s \<Rightarrow> s | None \<Rightarrow> [])"

definition port :: "world \<Rightarrow> json" where
  "port w = (if truthy_str (getParamValue w ''port'')
             then (case getParamValue w ''port'' of Some s \<Rightarrow> JStr s | None \<Rightarrow> JNull)
             else JNum 9593)"

definition endpoint :: "world \<Rightarrow> string" where
  "endpoint w = (case js_or (getParamValue w ''endpoint'') (Some ''/rest'') of Some s \<Rightarrow> s | None \<Rightarrow> [])"

subsection \<open>Logger (lines 25 to 72)\<close>

definition formatMessage :: "world \<Rightarrow> io \<Rightarrow> string \<Rightarrow> string \<Rightarrow> json option \<Rightarrow> string" where
  "formatMessage w io level message data =
     (let timestamp = now w (length io);
          logMessage = ''['' @ timestamp @ ''] ['' @ level @ ''] '' @ message
      in case data of
           None \<Rightarrow> logMessage
         | Some d \<Rightarrow> if truthy d then logMessage @ '' '' @ JSON_stringify d else logMessage)"

text \<open>
  \<open>writeLog\<close>: the append either happens, or throws and the \<^verbatim>\<open>catch\<close> prints the
  error on the console. Nothing leaves the function but the events.
\<close>

definition writeLog :: "world \<Rightarrow> io \<Rightarrow> string \<Rightarrow> io" where
  "writeLog w io message =
     (case appendFileSync_error w (length io) of
        None \<Rightarrow> io @ [AppendFile (message @ [CHR 0x0A])]
      | Some e \<Rightarrow> io @ [ConsoleError (''Failed to write log: '' @ e)])"

definition Logger_info :: "world \<Rightarrow> io \<Rightarrow> string \<Rightarrow> json option \<Rightarrow> io" where
  "Logger_info w io message data =
     (let logMessage = formatMessage w io ''INFO'' message data
      in writeLog w (io @ [ConsoleLog logMessage]) logMessage)"

definition Logger_error :: "world \<Rightarrow> io \<Rightarrow> string \<Rightarrow> json option \<Rightarrow> io" where
  "Logger_error w io message data =
     (let logMessage = formatMessage w io ''ERROR'' message data
      in writeLog w (io @ [ConsoleError logMessage]) logMessage)"

definition Logger_debug :: "world \<Rightarrow> io \<Rightarrow> string \<Rightarrow> json option \<Rightarrow> io" where
  "Logger_debug w io message data =
     (let logMessage = formatMessage w io ''DEBUG'' message data
      in writeLog w (io @ [ConsoleLog logMessage]) logMessage)"

subsection \<open>AI302Api (lines 77 to 177)\<close>

record AI302Api =
  baseUrl :: string
  apiKey :: string

definition new_AI302Api :: "world \<Rightarrow> io \<Rightarrow> string \<Rightarrow> AI302Api \<times> io" where
  "new_AI302Api w io key =
     (let this = \<lparr> baseUrl = (case js_or (process_env w ''BASE_URL'') (Some ''https://api.302.ai/mcp'') of
                                 Some s \<Rightarrow> s | None \<Rightarrow> []),
                     apiKey = key \<rparr>
      in (this, Logger_info w (io @ [NewAI302Api key]) ''AI302Api initialized''
                  (Some (JObj [(''baseUrl'', JStr (baseUrl this))]))))"

definition getApiKey :: "AI302Api \<Rightarrow> string" where
  "getApiKey this = apiKey this"

text \<open>The request that \<open>listTools\<close> issues.\<close>

definition listTools_request :: "AI302Api \<Rightarrow> string \<Rightarrow> http_request" where
  "listTools_request this u =
     \<lparr> url = u, method' = ''GET'',
       headers = [(''Content-Type'', ''application/json''),
                  (''Authorization'', ''Bearer '' @ apiKey this)],
       body = None \<rparr>"

text \<open>The body of the \<^verbatim>\<open>try\<close> of \<open>listTools\<close> (lines 98 to 121).\<close>

definition listTools_try :: "world \<Rightarrow> AI302Api \<Rightarrow> string \<Rightarrow> io \<Rightarrow> (js_error + json option) \<times> io" where
  "listTools_try w this u io =
     (let io1 = io @ [FetchCall (listTools_request this u)]
      in case fetch w (listTools_request this u) of
           Inl e \<Rightarrow> (Inl e, io1)
         | Inr response \<Rightarrow>
             if \<not> ok response then
               (let errorText = body_text response;
                    io2 = Logger_error w io1 ''Failed to fetch tools list''
                            (Some (JObj [(''status'', JNum (int (status response))),
                                         (''statusText'', JStr (statusText response)),
                                         (''error'', JStr errorText)]))
                in (Inl (McpError InternalError
                           (''HTTP '' @ show_nat (status response) @ '': '' @ statusText response)),
                    io2))
             else
               (case decoded response of
                  Inl e \<Rightarrow> (Inl e, io1)
                | Inr data \<Rightarrow>
                    (case get_prop (Some data) ''tools'' of
                       Inl e \<Rightarrow> (Inl e, io1)
                     | Inr tools \<Rightarrow>
                         (case get_prop tools ''length'' of
                            Inl e \<Rightarrow> (Inl e, io1)
                          | Inr len \<Rightarrow>
                              (Inr tools,
                               Logger_info w io1 ''Successfully fetched tools list''
                                 (Some (object_literal [(''toolsCount'', len)])))))))"

definition listTools :: "world \<Rightarrow> AI302Api \<Rightarrow> io \<Rightarrow> (js_error + json option) \<times> io" where
  "listTools w this io =
     (case URL_toString w (baseUrl this @ ''/v1/tool/list'')
             [(''packId'', ''imageTools''), (''user302'', ''user302'')] of
        Inl e \<Rightarrow> (Inl e, io)
      | Inr u \<Rightarrow>
          (let io1 = Logger_debug w io ''Fetching tools list'' (Some (JObj [(''url'', JStr u)]))
           in case listTools_try w this u io1 of
                (Inr tools, io2) \<Rightarrow> (Inr tools, io2)
              | (Inl err, io2) \<Rightarrow>
                  (Inl (McpError InternalError (''Failed to fetch tools: '' @ message_of err)),
                   Logger_error w io2 ''Tools list fetch exception''
                     (Some (JObj [(''error'', JStr (message_of err))])))))"

text \<open>The request that \<open>callTool\<close> issues.\<close>

definition callTool_request :: "AI302Api \<Rightarrow> string \<Rightarrow> json option \<Rightarrow> http_request" where
  "callTool_request this nm arguments0 =
     \<lparr> url = baseUrl this @ ''/v1/tool/call'', method' = ''POST'',
       headers = [(''Content-Type'', ''application/json''),
                  (''Authorization'', ''Bearer '' @ apiKey this),
                  (''x-api-key'', apiKey this)],
       body = Some (JSON_stringify
                (object_literal [(''nameOrId'', Some (JStr nm)), (''arguments'', arguments0)])) \<rparr>"

text \<open>The body of the \<^verbatim>\<open>try\<close> of \<open>callTool\<close> (lines 135 to 168).\<close>

definition callTool_try :: "world \<Rightarrow> AI302Api \<Rightarrow> string \<Rightarrow> json option \<Rightarrow> io \<Rightarrow> (js_error + json) \<times> io" where
  "callTool_try w this nm arguments0 io =
     (let requestBody = object_literal [(''nameOrId'', Some (JStr nm)), (''arguments'', arguments0)];
          io1 = Logger_debug w io ''Request body'' (Some (JObj [(''body'', requestBody)]));
          io2 = io1 @ [FetchCall (callTool_request this nm arguments0)]
      in case fetch w (callTool_request this nm arguments0) of
           Inl e \<Rightarrow> (Inl e, io2)
         | Inr response \<Rightarrow>
             if \<not> ok response then
               (let errorText = body_text response;
                    io3 = Logger_error w io2 ''Tool call failed''
                            (Some (JObj [(''name'', JStr nm),
                                         (''status'', JNum (int (status response))),
                                         (''statusText'', JStr (statusText response)),
                                         (''error'', JStr errorText)]))
                in (Inl (McpError InternalError
                           (''HTTP '' @ show_nat (status response) @ '': '' @ statusText response)),
                    io3))
             else
               (case decoded response of
                  Inl e \<Rightarrow> (Inl e, io2)
                | Inr data \<Rightarrow>
                    (Inr data,
                     Logger_info w io2 ''Tool called successfully'' (Some (JObj [(''name'', JStr nm)])))))"

definition callTool :: "world \<Rightarrow> AI302Api \<Rightarrow> string \<Rightarrow> json option \<Rightarrow> io \<Rightarrow> (js_error + json) \<times> io" where
  "callTool w this nm arguments0 io =
     (let io1 = Logger_debug w io ''Calling tool''
                  (Some (object_literal [(''name'', Some (JStr nm)), (''arguments'', arguments0)]))
      in case callTool_try w this nm arguments0 io1 of
           (Inr data, io2) \<Rightarrow> (Inr data, io2)
         | (Inl err, io2) \<Rightarrow>
             (Inl (McpError InternalError (''Tool call failed: '' @ message_of err)),
              Logger_error w io2 ''Tool call exception''
                (Some (JObj [(''name'', JStr nm), (''error'', JStr (message_of err))]))))"

subsection \<open>AI302Server (lines 179 to 304)\<close>

record AI302Server =
  api :: "AI302Api option"

definition new_AI302Server :: "world \<Rightarrow> io \<Rightarrow> AI302Server \<times> io" where
  "new_AI302Server w io =
     (let io1 = Logger_info w io ''Initializing AI302Server'' None
      in (\<lparr> api = None \<rparr>, Logger_info w io1 ''AI302Server initialized successfully'' None))"

text \<open>The credential of lines 223 to 226.\<close>

definition resolved_apiKey :: "world \<Rightarrow> request option \<Rightarrow> string option" where
  "resolved_apiKey w req =
     js_or (js_or (ai302ApiKey w)
                  (case req of None \<Rightarrow> None | Some r \<Rightarrow> getAuthValue r ''302AI_API_KEY''))
           (process_env w ''302AI_API_KEY'')"

definition getApiInstance ::
  "world \<Rightarrow> AI302Server \<Rightarrow> io \<Rightarrow> request option \<Rightarrow> (js_error + AI302Api) \<times> AI302Server \<times> io" where
  "getApiInstance w this io req =
     (let apiKey = resolved_apiKey w req
      in if \<not> truthy_str apiKey then
           (Inl (McpError InvalidParams ''API key is required to call the tool''),
            this, Logger_error w io ''API key is missing'' None)
         else
           (case apiKey of
              None \<Rightarrow> (Inl (McpError InvalidParams ''API key is required to call the tool''),
                       this, Logger_error w io ''API key is missing'' None)
            | Some k \<Rightarrow>
                (case api this of
                   Some a \<Rightarrow>
                     if getApiKey a \<noteq> k then
                       (let io1 = Logger_debug w io ''Creating new API instance'' None;
                            (a', io2) = new_AI302Api w io1 k
                        in (Inr a', this\<lparr>api := Some a'\<rparr>, io2))
                     else (Inr a, this, io)
                 | None \<Rightarrow>
                     (let io1 = Logger_debug w io ''Creating new API instance'' None;
                          (a', io2) = new_AI302Api w io1 k
                      in (Inr a', this\<lparr>api := Some a'\<rparr>, io2)))))"

text \<open>What the two request handlers return.\<close>

record ListToolsResult =
  tools :: "json option"

record TextContent =
  type' :: string
  text' :: string

record CallToolResult =
  content :: "TextContent list"

text \<open>The handler of \<^verbatim>\<open>ListToolsRequestSchema\<close> (lines 245 to 254).\<close>

definition ListTools_handler ::
  "world \<Rightarrow> AI302Server \<Rightarrow> io \<Rightarrow> request \<Rightarrow> (js_error + ListToolsResult) \<times> AI302Server \<times> io" where
  "ListTools_handler w this io req =
     (let io1 = Logger_debug w io ''Handling list tools request'' None
      in case getApiInstance w this io1 (Some req) of
           (Inl e, this', io2) \<Rightarrow> (Inl e, this', io2)
         | (Inr a, this', io2) \<Rightarrow>
             (case listTools w a io2 of
                (Inl e, io3) \<Rightarrow> (Inl e, this', io3)
              | (Inr tls, io3) \<Rightarrow>
                  (case get_prop tls ''length'' of
                     Inl e \<Rightarrow> (Inl e, this', io3)
                   | Inr len \<Rightarrow>
                       (Inr \<lparr> tools = tls \<rparr>, this',
                        Logger_info w io3 ''List tools request completed''
                          (Some (object_literal [(''toolsCount'', len)]))))))"

text \<open>The handler of \<^verbatim>\<open>CallToolRequestSchema\<close> (lines 256 to 275).\<close>

definition CallTool_handler ::
  "world \<Rightarrow> AI302Server \<Rightarrow> io \<Rightarrow> request \<Rightarrow> (js_error + CallToolResult) \<times> AI302Server \<times> io" where
  "CallTool_handler w this io req =
     (let io1 = Logger_debug w io ''Handling call tool request''
                  (Some (JObj [(''toolName'', JStr (name req))]))
      in case getApiInstance w this io1 (Some req) of
           (Inl e, this', io2) \<Rightarrow> (Inl e, this', io2)
         | (Inr a, this', io2) \<Rightarrow>
             (case callTool w a (name req) (arguments req) io2 of
                (Inl e, io3) \<Rightarrow> (Inl e, this', io3)
              | (Inr cont, io3) \<Rightarrow>
                  (Inr \<lparr> content = [\<lparr> type' = ''text'',
                                      text' = JSON_stringify_space (JObj [(''content'', cont)]) 2 \<rparr>] \<rparr>,
                   this',
                   Logger_info w io3 ''Call tool request completed''
                     (Some (JObj [(''toolName'', JStr (name req))])))))"

text \<open>\<open>run\<close> (lines 278 to 303).\<close>

definition run :: "world \<Rightarrow> io \<Rightarrow> (js_error + unit) \<times> io" where
  "run w io =
     (let io1 = Logger_info w io ''Starting server''
                  (Some (JObj [(''mode'', JStr (mode w)), (''port'', port w),
                               (''endpoint'', JStr (endpoint w))]))
      in if mode w = ''rest'' then
           (let io2 = Logger_info w io1 ''Starting REST server''
                        (Some (JObj [(''port'', port w), (''endpoint'', JStr (endpoint w))]));
                transport = RestServerTransport (Number (port w)) (endpoint w);
                io3 = io2 @ [NewTransport transport, Connect transport]
            in case connect_error w transport of
                 Some e \<Rightarrow> (Inl e, io3)
               | None \<Rightarrow>
                   (let io4 = io3 @ [StartServer]
                    in case startServer_error w of
                         Some e \<Rightarrow> (Inl e, io4)
                       | None \<Rightarrow>
                           (Inr (), Logger_info w io4 ''REST server started successfully''
                                      (Some (JObj [(''port'', port w),
                                                   (''endpoint'', JStr (endpoint w))])))))
         else
           (let io2 = Logger_info w io1 ''Starting stdio server'' None;
                transport = StdioServerTransport;
                io3 = io2 @ [NewTransport transport, Connect transport]
            in case connect_error w transport of
                 Some e \<Rightarrow> (Inl e, io3)
               | None \<Rightarrow> (Inr (), Logger_info w io3 ''Stdio server started successfully'' None)))"

text \<open>The module's last lines (306 to 311): build the server, run it, exit with 1 when that fails.\<close>

definition main :: "world \<Rightarrow> io \<Rightarrow> AI302Server \<times> io" where
  "main w io =
     (case new_AI302Server w io of
        (server, io1) \<Rightarrow>
          (case run w io1 of
             (Inr u, io2) \<Rightarrow> (server, io2)
           | (Inl e, io2) \<Rightarrow>
               (let io3 = Logger_error w io2 ''Server failed to start''
                            (Some (JObj [(''error'', JStr (message_of e))]))
                in (server, io3 @ [ConsoleError (message_of e), ProcessExit 1]))))"

section \<open>Observations of a run\<close>

text \<open>The credentials of the client instances constructed, in order.\<close>

fun constructions :: "io \<Rightarrow> string list" where
  "constructions [] = []"
| "constructions (NewAI302Api k # es) = k # constructions es"
| "constructions (e # es) = constructions es"

text \<open>The HTTP requests issued, in order.\<close>

fun fetches :: "io \<Rightarrow> http_request list" where
  "fetches [] = []"
| "fetches (FetchCall q # es) = q # fetches es"
| "fetches (e # es) = fetches es"

text \<open>The transports constructed, in order.\<close>

fun transports :: "io \<Rightarrow> transport list" where
  "transports [] = []"
| "transports (NewTransport t # es) = t # transports es"
| "transports (e # es) = transports es"

text \<open>The transports attached to the server, and the number of listeners started.\<close>

fun connected :: "io \<Rightarrow> transport list" where
  "connected [] = []"
| "connected (Connect t # es) = t # connected es"
| "connected (e # es) = connected es"

fun started :: "io \<Rightarrow> nat" where
  "started [] = 0"
| "started (StartServer # es) = Suc (started es)"
| "started (e # es) = started es"


section \<open>Example inputs\<close>

text \<open>
  A world with the given start key, environment key and upstream, in which the log file
  can be written and the transports start; an upstream that answers every request with
  the same response, and one that cannot be reached; and a call request with the given
  authenticated values.
\<close>


definition example_world ::
  "string option \<Rightarrow> string option \<Rightarrow> (http_request \<Rightarrow> js_error + response) \<Rightarrow> world" where
  "example_world startKey envKey upstream =
     \<lparr> getParamValue = (\<lambda>k. if k = ''302ai_api_key'' then startKey else None),
       process_env = (\<lambda>k. if k = ''302AI_API_KEY'' then envKey else None),
       now = (\<lambda>n. ''2025-01-01T00:00:00.000Z''),
       appendFileSync_error = (\<lambda>n. None),
       fetch = upstream,
       URL_toString = (\<lambda>u ps. Inr (u @ ''?'' @ join ''&'' (map (\<lambda>(k, v). k @ ''='' @ v) ps))),
       connect_error = (\<lambda>t. None),
       startServer_error = None \<rparr>"

definition answering :: "response \<Rightarrow> http_request \<Rightarrow> js_error + response" where
  "answering r q = Inr r"

definition unreachable :: "http_request \<Rightarrow> js_error + response" where
  "unreachable q = Inl (TypeError ''fetch failed'')"

definition example_request :: "(string \<times> string) list \<Rightarrow> request" where
  "example_request a = \<lparr> auth = a, name = ''upscale'',
      arguments = Some (JObj [(''url'', JStr ''http://x/img.png'')]) \<rparr>"

section \<open>Events that logging leaves alone\<close>

lemma constructions_append [simp]: "constructions (xs @ ys) = constructions xs @ constructions ys"
  by (induction xs rule: constructions.induct) simp_all

lemma fetches_append [simp]: "fetches (xs @ ys) = fetches xs @ fetches ys"
  by (induction xs rule: fetches.induct) simp_all

lemma transports_append [simp]: "transports (xs @ ys) = transports xs @ transports ys"
  by (induction xs rule: transports.induct) simp_all

lemma connected_append [simp]: "connected (xs @ ys) = connected xs @ connected ys"
  by (induction xs rule: connected.induct) simp_all

lemma started_append [simp]: "started (xs @ ys) = started xs + started ys"
  by (induction xs rule: started.induct) simp_all

lemma writeLog_obs [simp]:
  "constructions (writeLog w io m) = constructions io"
  "fetches (writeLog w io m) = fetches io"
  "transports (writeLog w io m) = transports io"
  "connected (writeLog w io m) = connected io"
  "started (writeLog w io m) = started io"
  by (simp_all add: writeLog_def split: option.splits)

lemma Logger_info_obs [simp]:
  "constructions (Logger_info w io m d) = constructions io"
  "fetches (Logger_info w io m d) = fetches io"
  "transports (Logger_info w io m d) = transports io"
  "connected (Logger_info w io m d) = connected io"
  "started (Logger_info w io m d) = started io"
  by (simp_all add: Logger_info_def Let_def)

lemma Logger_error_obs [simp]:
  "constructions (Logger_error w io m d) = constructions io"
  "fetches (Logger_error w io m d) = fetches io"
  "transports (Logger_error w io m d) = transports io"
  "connected (Logger_error w io m d) = connected io"
  "started (Logger_error w io m d) = started io"
  by (simp_all add: Logger_error_def Let_def)

lemma Logger_debug_obs [simp]:
  "constructions (Logger_debug w io m d) = constructions io"
  "fetches (Logger_debug w io m d) = fetches io"
  "transports (Logger_debug w io m d) = transports io"
  "connected (Logger_debug w io m d) = connected io"
  "started (Logger_debug w io m d) = started io"
  by (simp_all add: Logger_debug_def Let_def)

lemma writeLog_keeps: "set io \<subseteq> set (writeLog w io m)"
  by (auto simp add: writeLog_def split: option.splits)

lemma Logger_error_keeps: "set io \<subseteq> set (Logger_error w io m d)"
  using writeLog_keeps [of "io @ [ConsoleError (formatMessage w io ''ERROR'' m d)]" w]
  by (auto simp add: Logger_error_def Let_def)

lemma Logger_error_console:
  "ConsoleError (formatMessage w io ''ERROR'' m d) \<in> set (Logger_error w io m d)"
  using writeLog_keeps [of "io @ [ConsoleError (formatMessage w io ''ERROR'' m d)]" w]
  by (auto simp add: Logger_error_def Let_def)

lemma formatMessage_object:
  "formatMessage w io level m (Some (JObj kvs)) =
     ''['' @ now w (length io) @ ''] ['' @ level @ ''] '' @ m @ '' '' @ JSON_stringify (JObj kvs)"
  by (simp add: formatMessage_def Let_def)

section \<open>Numbers, property reads and parts of strings\<close>

lemma show_int_InternalError: "show_int (ErrorCode_number InternalError) = ''-32603''"
  by (simp add: show_int_def ErrorCode_number_def show_nat.simps digit_char_def)

lemma show_nat_500: "show_nat 500 = ''500''"
  by (simp add: show_nat.simps digit_char_def)

lemma get_prop_Inr: "get_prop t k = Inr l \<Longrightarrow> \<exists>v. t = Some v \<and> v \<noteq> JNull"
  by (induction t k rule: get_prop.induct) simp_all

lemma get_prop_defined: "v \<noteq> JNull \<Longrightarrow> \<exists>l. get_prop (Some v) k = Inr l"
  by (cases v) simp_all

lemma sublist_mid: "sublist xs (ps @ xs @ ss)"
  by (auto simp add: sublist_def)

lemma sublist_end: "sublist xs (ps @ xs)"
  using sublist_mid [of xs ps "[]"] by simp

lemma ok_body_text [simp]: "ok (r\<lparr>body_text := b\<rparr>) = ok r"
  by (simp add: ok_def)

section \<open>What the resolver returns\<close>

text \<open>
What \<open>getApiInstance\<close> does, by the credential it resolved.
\<close>

lemma new_AI302Api_apiKey [simp]: "apiKey (fst (new_AI302Api w io k)) = k"
  by (simp add: new_AI302Api_def Let_def)

lemma new_AI302Api_obs [simp]:
  "constructions (snd (new_AI302Api w io k)) = constructions io @ [k]"
  "fetches (snd (new_AI302Api w io k)) = fetches io"
  by (simp_all add: new_AI302Api_def Let_def)

lemma getApiInstance_missing:
  "\<not> truthy_str (resolved_apiKey w req) \<Longrightarrow>
   getApiInstance w this io req =
     (Inl (McpError InvalidParams ''API key is required to call the tool''), this,
      Logger_error w io ''API key is missing'' None)"
  by (simp add: getApiInstance_def)

lemma getApiInstance_reuse:
  "resolved_apiKey w req = Some k \<Longrightarrow> k \<noteq> [] \<Longrightarrow> api this = Some a \<Longrightarrow> apiKey a = k \<Longrightarrow>
   getApiInstance w this io req = (Inr a, this, io)"
  by (simp add: getApiInstance_def truthy_str_def getApiKey_def)

lemma getApiInstance_create:
  "resolved_apiKey w req = Some k \<Longrightarrow> k \<noteq> [] \<Longrightarrow> \<not> (\<exists>a. api this = Some a \<and> apiKey a = k) \<Longrightarrow>
   getApiInstance w this io req =
     (Inr (fst (new_AI302Api w (Logger_debug w io ''Creating new API instance'' None) k)),
      this\<lparr>api := Some (fst (new_AI302Api w (Logger_debug w io ''Creating new API instance'' None) k))\<rparr>,
      snd (new_AI302Api w (Logger_debug w io ''Creating new API instance'' None) k))"
  by (cases "api this") (simp_all add: getApiInstance_def truthy_str_def getApiKey_def Let_def split_beta)

lemma getApiInstance_resolved:
  assumes "resolved_apiKey w req = Some k" "k \<noteq> []"
  shows "\<exists>a this' io'. getApiInstance w this io req = (Inr a, this', io') \<and> apiKey a = k
            \<and> api this' = Some a"
proof (cases "\<exists>a. api this = Some a \<and> apiKey a = k")
  case True
  then obtain a where "api this = Some a" "apiKey a = k" by blast
  with assms show ?thesis by (simp add: getApiInstance_reuse)
next
  case False
  with assms show ?thesis by (simp add: getApiInstance_create)
qed

lemma getApiInstance_resolved_fst:
  assumes "resolved_apiKey w req = Some k" "k \<noteq> []"
  shows "\<exists>a. fst (getApiInstance w this io req) = Inr a \<and> apiKey a = k"
proof -
  from getApiInstance_resolved [OF assms, of this io]
  obtain a this' io' where "getApiInstance w this io req = (Inr a, this', io')" "apiKey a = k"
    by blast
  then show ?thesis by simp
qed

lemma getApiInstance_cache:
  assumes "resolved_apiKey w req = Some k" "k \<noteq> []"
  shows "\<exists>a this' io'. getApiInstance w this io req = (Inr a, this', io') \<and> apiKey a = k
            \<and> api this' = Some a
            \<and> constructions io' = constructions io @ (if \<exists>c. api this = Some c \<and> apiKey c = k then [] else [k])
            \<and> fetches io' = fetches io"
proof (cases "\<exists>a. api this = Some a \<and> apiKey a = k")
  case True
  then obtain a where "api this = Some a" "apiKey a = k" by blast
  with assms show ?thesis by (simp add: getApiInstance_reuse)
next
  case False
  with assms show ?thesis by (simp add: getApiInstance_create)
qed

section \<open>What the client returns and sends\<close>

lemma listTools_try_obs:
  "constructions (snd (listTools_try w a u io)) = constructions io"
  "fetches (snd (listTools_try w a u io)) = fetches io @ [listTools_request a u]"
  by (simp_all add: listTools_try_def Let_def split: sum.splits)

lemma listTools_obs:
  "constructions (snd (listTools w a io)) = constructions io
   \<and> (fetches (snd (listTools w a io)) = fetches io
      \<or> (\<exists>u. fetches (snd (listTools w a io)) = fetches io @ [listTools_request a u]))"
proof (cases "URL_toString w (baseUrl a @ ''/v1/tool/list'')
           [(''packId'', ''imageTools''), (''user302'', ''user302'')]")
  case (Inl e)
  then show ?thesis by (simp add: listTools_def)
next
  case (Inr u)
  let ?io1 = "Logger_debug w io ''Fetching tools list'' (Some (JObj [(''url'', JStr u)]))"
  obtain r io2 where t: "listTools_try w a u ?io1 = (r, io2)"
    by (cases "listTools_try w a u ?io1")
  from listTools_try_obs [of w a u ?io1] t
  have o: "constructions io2 = constructions io" "fetches io2 = fetches io @ [listTools_request a u]"
    by simp_all
  with Inr t have "constructions (snd (listTools w a io)) = constructions io"
    and "fetches (snd (listTools w a io)) = fetches io @ [listTools_request a u]"
    by (cases r; simp add: listTools_def Let_def)+
  then show ?thesis by blast
qed

lemma callTool_try_obs:
  "constructions (snd (callTool_try w a n args io)) = constructions io"
  "fetches (snd (callTool_try w a n args io)) = fetches io @ [callTool_request a n args]"
  by (simp_all add: callTool_try_def Let_def split: sum.splits)

lemma callTool_obs:
  "constructions (snd (callTool w a n args io)) = constructions io"
  "fetches (snd (callTool w a n args io)) = fetches io @ [callTool_request a n args]"
proof -
  obtain r io2 where t: "callTool_try w a n args (Logger_debug w io ''Calling tool''
                  (Some (object_literal [(''name'', Some (JStr n)), (''arguments'', args)]))) = (r, io2)"
    by (cases "callTool_try w a n args (Logger_debug w io ''Calling tool''
                  (Some (object_literal [(''name'', Some (JStr n)), (''arguments'', args)])))")
  from callTool_try_obs [of w a n args "Logger_debug w io ''Calling tool''
                  (Some (object_literal [(''name'', Some (JStr n)), (''arguments'', args)]))"] t
  have o: "constructions io2 = constructions io" "fetches io2 = fetches io @ [callTool_request a n args]"
    by simp_all
  from t o show "constructions (snd (callTool w a n args io)) = constructions io"
    by (cases r) (simp_all add: callTool_def Let_def)
  from t o show "fetches (snd (callTool w a n args io)) = fetches io @ [callTool_request a n args]"
    by (cases r) (simp_all add: callTool_def Let_def)
qed

lemma Authorization_listTools_request:
  "map_of (headers (listTools_request a u)) ''Authorization'' = Some (''Bearer '' @ apiKey a)"
  by (simp add: listTools_request_def)

lemma Authorization_callTool_request:
  "map_of (headers (callTool_request a n args)) ''Authorization'' = Some (''Bearer '' @ apiKey a)"
  by (simp add: callTool_request_def)

lemma listTools_try_fst:
  "fst (listTools_try w a u io) =
     (case fetch w (listTools_request a u) of
        Inl e \<Rightarrow> Inl e
      | Inr r \<Rightarrow>
          if \<not> ok r then Inl (McpError InternalError (''HTTP '' @ show_nat (status r) @ '': '' @ statusText r))
          else (case decoded r of
                  Inl e \<Rightarrow> Inl e
                | Inr data \<Rightarrow>
                    (case get_prop (Some data) ''tools'' of
                       Inl e \<Rightarrow> Inl e
                     | Inr tls \<Rightarrow> (case get_prop tls ''length'' of Inl e \<Rightarrow> Inl e | Inr len \<Rightarrow> Inr tls))))"
  by (simp add: listTools_try_def Let_def split: sum.splits)

lemma listTools_fst:
  "fst (listTools w a io) =
     (case URL_toString w (baseUrl a @ ''/v1/tool/list'')
             [(''packId'', ''imageTools''), (''user302'', ''user302'')] of
        Inl e \<Rightarrow> Inl e
      | Inr u \<Rightarrow>
          (case fst (listTools_try w a u (Logger_debug w io ''Fetching tools list'' (Some (JObj [(''url'', JStr u)])))) of
             Inl err \<Rightarrow> Inl (McpError InternalError (''Failed to fetch tools: '' @ message_of err))
           | Inr tls \<Rightarrow> Inr tls))"
  by (simp add: listTools_def Let_def split: sum.splits prod.splits)

lemma callTool_try_fst:
  "fst (callTool_try w a n args io) =
     (case fetch w (callTool_request a n args) of
        Inl e \<Rightarrow> Inl e
      | Inr r \<Rightarrow>
          if \<not> ok r then Inl (McpError InternalError (''HTTP '' @ show_nat (status r) @ '': '' @ statusText r))
          else (case decoded r of Inl e \<Rightarrow> Inl e | Inr data \<Rightarrow> Inr data))"
  by (simp add: callTool_try_def Let_def split: sum.splits)

lemma callTool_fst:
  "fst (callTool w a n args io) =
     (case fst (callTool_try w a n args (Logger_debug w io ''Calling tool''
                  (Some (object_literal [(''name'', Some (JStr n)), (''arguments'', args)])))) of
        Inl err \<Rightarrow> Inl (McpError InternalError (''Tool call failed: '' @ message_of err))
      | Inr data \<Rightarrow> Inr data)"
  by (simp add: callTool_def Let_def split: sum.splits prod.splits)

lemma listTools_defined:
  assumes "fst (listTools w a io) = Inr t"
  shows "\<exists>v. t = Some v \<and> v \<noteq> JNull"
  using assms
  by (auto simp add: listTools_fst listTools_try_fst split: sum.splits if_splits dest: get_prop_Inr)

lemma listTools_http_error:
  assumes "\<not> ok r"
    and "URL_toString w (baseUrl a @ ''/v1/tool/list'')
           [(''packId'', ''imageTools''), (''user302'', ''user302'')] = Inr u"
    and "fetch w (listTools_request a u) = Inr r"
  shows "fst (listTools w a io) =
           Inl (McpError InternalError
                  (''Failed to fetch tools: MCP error -32603: HTTP '' @ show_nat (status r) @ '': '' @ statusText r))"
  using assms by (simp add: listTools_fst listTools_try_fst show_int_InternalError)

lemma callTool_http_error:
  assumes "\<not> ok r"
    and "fetch w (callTool_request a n args) = Inr r"
  shows "fst (callTool w a n args io) =
           Inl (McpError InternalError
                  (''Tool call failed: MCP error -32603: HTTP '' @ show_nat (status r) @ '': '' @ statusText r))"
  using assms by (simp add: callTool_fst callTool_try_fst show_int_InternalError)

lemma listTools_success:
  assumes "URL_toString w (baseUrl a @ ''/v1/tool/list'')
             [(''packId'', ''imageTools''), (''user302'', ''user302'')] = Inr u"
    and "fetch w (listTools_request a u) = Inr r" and "ok r" and "decoded r = Inr data"
  shows "fst (listTools w a io) =
           (case get_prop (Some data) ''tools'' of
              Inl e \<Rightarrow> Inl (McpError InternalError (''Failed to fetch tools: '' @ message_of e))
            | Inr tls \<Rightarrow>
                (case get_prop tls ''length'' of
                   Inl e \<Rightarrow> Inl (McpError InternalError (''Failed to fetch tools: '' @ message_of e))
                 | Inr len \<Rightarrow> Inr tls))"
  using assms by (simp add: listTools_fst listTools_try_fst split: sum.splits)

lemma callTool_success:
  assumes "fetch w (callTool_request a n args) = Inr r" "ok r" "decoded r = Inr R"
  shows "fst (callTool w a n args io) = Inr R"
  using assms by (simp add: callTool_fst callTool_try_fst)

lemma listTools_logs_body:
  assumes "\<not> ok r"
    and "URL_toString w (baseUrl a @ ''/v1/tool/list'')
           [(''packId'', ''imageTools''), (''user302'', ''user302'')] = Inr u"
    and "fetch w (listTools_request a u) = Inr r"
  shows "\<exists>t. ConsoleError (''['' @ t @ ''] [ERROR] Failed to fetch tools list '' @
                JSON_stringify (JObj [(''status'', JNum (int (status r))),
                                      (''statusText'', JStr (statusText r)),
                                      (''error'', JStr (body_text r))]))
              \<in> set (snd (listTools w a io))"
proof -
  let ?io1 = "Logger_debug w io ''Fetching tools list'' (Some (JObj [(''url'', JStr u)]))
                @ [FetchCall (listTools_request a u)]"
  let ?d = "JObj [(''status'', JNum (int (status r))), (''statusText'', JStr (statusText r)),
                  (''error'', JStr (body_text r))]"
  let ?io2 = "Logger_error w ?io1 ''Failed to fetch tools list'' (Some ?d)"
  let ?e = "McpError InternalError (''HTTP '' @ show_nat (status r) @ '': '' @ statusText r)"
  have s: "snd (listTools w a io) =
             Logger_error w ?io2 ''Tools list fetch exception'' (Some (JObj [(''error'', JStr (message_of ?e))]))"
    using assms by (simp add: listTools_def listTools_try_def Let_def)
  have "ConsoleError (formatMessage w ?io1 ''ERROR'' ''Failed to fetch tools list'' (Some ?d)) \<in> set ?io2"
    by (rule Logger_error_console)
  then have "ConsoleError (formatMessage w ?io1 ''ERROR'' ''Failed to fetch tools list'' (Some ?d))
               \<in> set (snd (listTools w a io))"
    unfolding s using Logger_error_keeps by blast
  then show ?thesis
    unfolding formatMessage_object by (intro exI [of _ "now w (length ?io1)"]) simp
qed

lemma callTool_logs_body:
  assumes "\<not> ok r"
    and "fetch w (callTool_request a n args) = Inr r"
  shows "\<exists>t. ConsoleError (''['' @ t @ ''] [ERROR] Tool call failed '' @
                JSON_stringify (JObj [(''name'', JStr n),
                                      (''status'', JNum (int (status r))),
                                      (''statusText'', JStr (statusText r)),
                                      (''error'', JStr (body_text r))]))
              \<in> set (snd (callTool w a n args io))"
proof -
  let ?io0 = "Logger_debug w io ''Calling tool''
                  (Some (object_literal [(''name'', Some (JStr n)), (''arguments'', args)]))"
  let ?io1 = "Logger_debug w ?io0 ''Request body''
                (Some (JObj [(''body'', object_literal [(''nameOrId'', Some (JStr n)), (''arguments'', args)])]))
                @ [FetchCall (callTool_request a n args)]"
  let ?d = "JObj [(''name'', JStr n), (''status'', JNum (int (status r))),
                  (''statusText'', JStr (statusText r)), (''error'', JStr (body_text r))]"
  let ?io2 = "Logger_error w ?io1 ''Tool call failed'' (Some ?d)"
  let ?e = "McpError InternalError (''HTTP '' @ show_nat (status r) @ '': '' @ statusText r)"
  have s: "snd (callTool w a n args io) =
             Logger_error w ?io2 ''Tool call exception''
               (Some (JObj [(''name'', JStr n), (''error'', JStr (message_of ?e))]))"
    using assms by (simp add: callTool_def callTool_try_def Let_def)
  have "ConsoleError (formatMessage w ?io1 ''ERROR'' ''Tool call failed'' (Some ?d)) \<in> set ?io2"
    by (rule Logger_error_console)
  then have "ConsoleError (formatMessage w ?io1 ''ERROR'' ''Tool call failed'' (Some ?d))
               \<in> set (snd (callTool w a n args io))"
    unfolding s using Logger_error_keeps by blast
  then show ?thesis
    unfolding formatMessage_object by (intro exI [of _ "now w (length ?io1)"]) simp
qed

section \<open>What the handlers return\<close>

lemma ListTools_handler_fst:
  "fst (ListTools_handler w this io req) =
     (case getApiInstance w this (Logger_debug w io ''Handling list tools request'' None) (Some req) of
        (Inl e, this', io2) \<Rightarrow> Inl e
      | (Inr a, this', io2) \<Rightarrow>
          (case fst (listTools w a io2) of Inl e \<Rightarrow> Inl e | Inr tls \<Rightarrow> Inr \<lparr> tools = tls \<rparr>))"
proof -
  obtain g this' io2 where g: "getApiInstance w this (Logger_debug w io ''Handling list tools request'' None) (Some req) = (g, this', io2)"
    by (cases "getApiInstance w this (Logger_debug w io ''Handling list tools request'' None) (Some req)")
  show ?thesis
  proof (cases g)
    case (Inl e)
    with g show ?thesis by (simp add: ListTools_handler_def)
  next
    case (Inr a)
    obtain r io3 where l: "listTools w a io2 = (r, io3)" by (cases "listTools w a io2")
    show ?thesis
    proof (cases r)
      case (Inl e)
      with g Inr l show ?thesis by (simp add: ListTools_handler_def)
    next
      case r: (Inr t)
      with l have "fst (listTools w a io2) = Inr t" by simp
      from listTools_defined [OF this] obtain v where "t = Some v" "v \<noteq> JNull" by blast
      with get_prop_defined [of v "''length''"] obtain len where "get_prop t ''length'' = Inr len" by blast
      with g Inr l r show ?thesis by (simp add: ListTools_handler_def)
    qed
  qed
qed

lemma CallTool_handler_fst:
  "fst (CallTool_handler w this io req) =
     (case getApiInstance w this (Logger_debug w io ''Handling call tool request''
                  (Some (JObj [(''toolName'', JStr (name req))]))) (Some req) of
        (Inl e, this', io2) \<Rightarrow> Inl e
      | (Inr a, this', io2) \<Rightarrow>
          (case fst (callTool w a (name req) (arguments req) io2) of
             Inl e \<Rightarrow> Inl e
           | Inr cont \<Rightarrow> Inr \<lparr> content = [\<lparr> type' = ''text'',
                                      text' = JSON_stringify_space (JObj [(''content'', cont)]) 2 \<rparr>] \<rparr>))"
  by (simp add: CallTool_handler_def Let_def split: sum.splits prod.splits)

lemma ListTools_handler_client:
  assumes "resolved_apiKey w (Some req) = Some k" "k \<noteq> []"
  shows "\<exists>a io2. apiKey a = k \<and>
           fst (ListTools_handler w this io req) =
             (case fst (listTools w a io2) of Inl e \<Rightarrow> Inl e | Inr tls \<Rightarrow> Inr \<lparr> tools = tls \<rparr>)"
proof -
  from getApiInstance_cache [OF assms, of this "Logger_debug w io ''Handling list tools request'' None"]
  obtain a this' io2 where
    "getApiInstance w this (Logger_debug w io ''Handling list tools request'' None) (Some req) = (Inr a, this', io2)"
    "apiKey a = k"
    by blast
  then show ?thesis by (auto simp add: ListTools_handler_fst)
qed

lemma CallTool_handler_client:
  assumes "resolved_apiKey w (Some req) = Some k" "k \<noteq> []"
  shows "\<exists>a io2. apiKey a = k \<and>
           fst (CallTool_handler w this io req) =
             (case fst (callTool w a (name req) (arguments req) io2) of
                Inl e \<Rightarrow> Inl e
              | Inr cont \<Rightarrow> Inr \<lparr> content = [\<lparr> type' = ''text'',
                                      text' = JSON_stringify_space (JObj [(''content'', cont)]) 2 \<rparr>] \<rparr>)"
proof -
  from getApiInstance_cache [OF assms, of this "Logger_debug w io ''Handling call tool request''
                  (Some (JObj [(''toolName'', JStr (name req))]))"]
  obtain a this' io2 where
    "getApiInstance w this (Logger_debug w io ''Handling call tool request''
                  (Some (JObj [(''toolName'', JStr (name req))]))) (Some req) = (Inr a, this', io2)"
    "apiKey a = k"
    by blast
  then show ?thesis by (auto simp add: CallTool_handler_fst)
qed

lemma ListTools_handler_cache:
  assumes "resolved_apiKey w (Some req) = Some k" "k \<noteq> []"
  shows "case ListTools_handler w this io req of (r, this', io') \<Rightarrow>
            map_option apiKey (api this') = Some k
            \<and> constructions io' = constructions io @ (if \<exists>c. api this = Some c \<and> apiKey c = k then [] else [k])
            \<and> (\<exists>qs. fetches io' = fetches io @ qs \<and> length qs \<le> 1
                  \<and> (\<forall>q \<in> set qs. map_of (headers q) ''Authorization'' = Some (''Bearer '' @ k)))"
proof -
  let ?io1 = "Logger_debug w io ''Handling list tools request'' None"
  from getApiInstance_cache [OF assms, of this ?io1]
  obtain a this' io2 where g: "getApiInstance w this ?io1 (Some req) = (Inr a, this', io2)"
    and a: "apiKey a = k" "api this' = Some a"
    and c: "constructions io2 = constructions io @ (if \<exists>c. api this = Some c \<and> apiKey c = k then [] else [k])"
    and f: "fetches io2 = fetches io"
    by auto
  obtain r io3 where l: "listTools w a io2 = (r, io3)" by (cases "listTools w a io2")
  from listTools_obs [of w a io2] l
  have c3: "constructions io3 = constructions io2"
    and f3: "fetches io3 = fetches io2 \<or> (\<exists>u. fetches io3 = fetches io2 @ [listTools_request a u])"
    by auto
  from f3 f a have q: "\<exists>qs. fetches io3 = fetches io @ qs \<and> length qs \<le> 1
                  \<and> (\<forall>q \<in> set qs. map_of (headers q) ''Authorization'' = Some (''Bearer '' @ k))"
  proof (elim disjE exE)
    assume "fetches io3 = fetches io2"
    with f have "fetches io3 = fetches io @ []" by simp
    then show ?thesis by (intro exI [of _ "[]"]) simp
  next
    fix u assume "fetches io3 = fetches io2 @ [listTools_request a u]"
    with f a show ?thesis
      by (intro exI [of _ "[listTools_request a u]"]) (simp add: Authorization_listTools_request)
  qed
  from g l a c c3 q show ?thesis
    by (cases r) (auto simp add: ListTools_handler_def Let_def split: sum.splits)
qed

lemma CallTool_handler_cache:
  assumes "resolved_apiKey w (Some req) = Some k" "k \<noteq> []"
  shows "case CallTool_handler w this io req of (r, this', io') \<Rightarrow>
            map_option apiKey (api this') = Some k
            \<and> constructions io' = constructions io @ (if \<exists>c. api this = Some c \<and> apiKey c = k then [] else [k])
            \<and> (\<exists>q. fetches io' = fetches io @ [q]
                  \<and> map_of (headers q) ''Authorization'' = Some (''Bearer '' @ k)
                  \<and> map_of (headers q) ''x-api-key'' = Some k)"
proof -
  let ?io1 = "Logger_debug w io ''Handling call tool request'' (Some (JObj [(''toolName'', JStr (name req))]))"
  from getApiInstance_cache [OF assms, of this ?io1]
  obtain a this' io2 where g: "getApiInstance w this ?io1 (Some req) = (Inr a, this', io2)"
    and a: "apiKey a = k" "api this' = Some a"
    and c: "constructions io2 = constructions io @ (if \<exists>c. api this = Some c \<and> apiKey c = k then [] else [k])"
    and f: "fetches io2 = fetches io"
    by auto
  obtain r io3 where l: "callTool w a (name req) (arguments req) io2 = (r, io3)"
    by (cases "callTool w a (name req) (arguments req) io2")
  from callTool_obs [of w a "name req" "arguments req" io2] l
  have c3: "constructions io3 = constructions io2"
    and f3: "fetches io3 = fetches io2 @ [callTool_request a (name req) (arguments req)]"
    by simp_all
  have h: "map_of (headers (callTool_request a (name req) (arguments req))) ''Authorization'' = Some (''Bearer '' @ k)"
     "map_of (headers (callTool_request a (name req) (arguments req))) ''x-api-key'' = Some k"
    using a by (simp_all add: callTool_request_def)
  from g l a c c3 f3 f h show ?thesis
    by (cases r) (simp_all add: CallTool_handler_def Let_def)
qed

lemma handlers_one_fetch:
  "length (fetches (snd (snd (ListTools_handler w this io req)))) \<le> Suc (length (fetches io))
   \<and> length (fetches (snd (snd (CallTool_handler w this io req)))) \<le> Suc (length (fetches io))"
proof (cases "truthy_str (resolved_apiKey w (Some req))")
  case False
  then show ?thesis
    by (simp add: ListTools_handler_def CallTool_handler_def getApiInstance_missing)
next
  case True
  then obtain k where k: "resolved_apiKey w (Some req) = Some k" "k \<noteq> []"
    by (auto simp add: truthy_str_def split: option.splits)
  from ListTools_handler_cache [OF k, of io this] CallTool_handler_cache [OF k, of io this]
  show ?thesis by (auto split: prod.splits)
qed

section \<open>Credential resolution\<close>

text \<open>
  Claim C1. \<open>getApiInstance\<close> resolves the credential in a fixed order. A non-empty key
  fixed at process start is the credential of the instance returned, whatever the request
  carries (so also when the request carries a different authenticated value). Without
  one, a non-empty authenticated value \<^verbatim>\<open>302AI_API_KEY\<close> of a supplied request is
  chosen. Otherwise (no request, or no such non-empty value) the environment variable
  \<^verbatim>\<open>302AI_API_KEY\<close> is what is resolved, and when it is non-empty it is the credential
  of the instance returned.
\<close>

theorem credential_priority:
  "(ai302ApiKey w = Some k \<and> k \<noteq> [] \<longrightarrow>
      (\<exists>a. fst (getApiInstance w this io req) = Inr a \<and> apiKey a = k))
   \<and> (\<not> truthy_str (ai302ApiKey w) \<and> req = Some r \<and> getAuthValue r ''302AI_API_KEY'' = Some k \<and> k \<noteq> [] \<longrightarrow>
      (\<exists>a. fst (getApiInstance w this io req) = Inr a \<and> apiKey a = k))
   \<and> (\<not> truthy_str (ai302ApiKey w)
        \<and> (req = None \<or> (\<exists>r. req = Some r \<and> \<not> truthy_str (getAuthValue r ''302AI_API_KEY'')))
      \<longrightarrow> resolved_apiKey w req = process_env w ''302AI_API_KEY''
          \<and> (\<forall>k. process_env w ''302AI_API_KEY'' = Some k \<and> k \<noteq> [] \<longrightarrow>
                (\<exists>a. fst (getApiInstance w this io req) = Inr a \<and> apiKey a = k)))"
proof (intro conjI impI)
  assume "ai302ApiKey w = Some k \<and> k \<noteq> []"
  then have "resolved_apiKey w req = Some k" "k \<noteq> []"
    by (simp_all add: resolved_apiKey_def js_or_def truthy_str_def)
  then show "\<exists>a. fst (getApiInstance w this io req) = Inr a \<and> apiKey a = k"
    by (rule getApiInstance_resolved_fst)
next
  assume "\<not> truthy_str (ai302ApiKey w) \<and> req = Some r \<and> getAuthValue r ''302AI_API_KEY'' = Some k \<and> k \<noteq> []"
  then have "resolved_apiKey w req = Some k" "k \<noteq> []"
    by (simp_all add: resolved_apiKey_def js_or_def truthy_str_def)
  then show "\<exists>a. fst (getApiInstance w this io req) = Inr a \<and> apiKey a = k"
    by (rule getApiInstance_resolved_fst)
next
  assume h: "\<not> truthy_str (ai302ApiKey w)
        \<and> (req = None \<or> (\<exists>r. req = Some r \<and> \<not> truthy_str (getAuthValue r ''302AI_API_KEY'')))"
  then show e: "resolved_apiKey w req = process_env w ''302AI_API_KEY''"
    by (auto simp add: resolved_apiKey_def js_or_def truthy_str_def split: option.splits)
  show "\<forall>k. process_env w ''302AI_API_KEY'' = Some k \<and> k \<noteq> [] \<longrightarrow>
                (\<exists>a. fst (getApiInstance w this io req) = Inr a \<and> apiKey a = k)"
  proof (intro allI impI)
    fix k' assume "process_env w ''302AI_API_KEY'' = Some k' \<and> k' \<noteq> []"
    with e have "resolved_apiKey w req = Some k'" "k' \<noteq> []" by simp_all
    then show "\<exists>a. fst (getApiInstance w this io req) = Inr a \<and> apiKey a = k'"
      by (rule getApiInstance_resolved_fst)
  qed
qed

theorem credential_priority_witness:
  "(\<exists>a. fst (getApiInstance (example_world (Some ''START'') (Some ''ENV'') unreachable)
                \<lparr> api = None \<rparr> [] (Some (example_request [(''302AI_API_KEY'', ''REQ'')]))) = Inr a
        \<and> apiKey a = ''START'')
   \<and> (\<exists>a. fst (getApiInstance (example_world None (Some ''ENV'') unreachable)
                \<lparr> api = None \<rparr> [] (Some (example_request [(''302AI_API_KEY'', ''X'')]))) = Inr a
        \<and> apiKey a = ''X'')
   \<and> (\<exists>a. fst (getApiInstance (example_world None (Some ''ENV'') unreachable)
                \<lparr> api = None \<rparr> [] None) = Inr a
        \<and> apiKey a = ''ENV'')"
  using credential_priority [of "example_world (Some ''START'') (Some ''ENV'') unreachable"
          "''START''" "\<lparr> api = None \<rparr>" "[]" "Some (example_request [(''302AI_API_KEY'', ''REQ'')])"
          "example_request [(''302AI_API_KEY'', ''REQ'')]"]
        credential_priority [of "example_world None (Some ''ENV'') unreachable"
          "''X''" "\<lparr> api = None \<rparr>" "[]" "Some (example_request [(''302AI_API_KEY'', ''X'')])"
          "example_request [(''302AI_API_KEY'', ''X'')]"]
        credential_priority [of "example_world None (Some ''ENV'') unreachable"
          "''X''" "\<lparr> api = None \<rparr>" "[]" "None"
          "example_request []"]
  by (simp add: example_world_def answering_def example_request_def ai302ApiKey_def getAuthValue_def truthy_str_def)

lemma resolved_missing:
  assumes "\<not> truthy_str (ai302ApiKey w)"
    and "\<not> truthy_str (getAuthValue req ''302AI_API_KEY'')"
    and "\<not> truthy_str (process_env w ''302AI_API_KEY'')"
  shows "\<not> truthy_str (resolved_apiKey w (Some req))"
  using assms by (simp add: resolved_apiKey_def js_or_def)

text \<open>
  Claim C2. When the start key, the request's authenticated value and the environment
  variable are all empty or absent, the list operation and the call operation fail with
  \<open>InvalidParams\<close> and the message that the key is required; the server keeps its state,
  no client instance is constructed and no HTTP request is issued.
\<close>

theorem missing_credential_fails_first:
  assumes "\<not> truthy_str (ai302ApiKey w)"
    and "\<not> truthy_str (getAuthValue req ''302AI_API_KEY'')"
    and "\<not> truthy_str (process_env w ''302AI_API_KEY'')"
  shows "(case ListTools_handler w this io req of (r, this', io') \<Rightarrow>
            r = Inl (McpError InvalidParams ''API key is required to call the tool'')
            \<and> this' = this \<and> constructions io' = constructions io \<and> fetches io' = fetches io)
       \<and> (case CallTool_handler w this io req of (r, this', io') \<Rightarrow>
            r = Inl (McpError InvalidParams ''API key is required to call the tool'')
            \<and> this' = this \<and> constructions io' = constructions io \<and> fetches io' = fetches io)"
proof -
  have m: "\<not> truthy_str (resolved_apiKey w (Some req))"
    using assms by (rule resolved_missing)
  show ?thesis
    by (simp add: ListTools_handler_def CallTool_handler_def getApiInstance_missing [OF m])
qed

theorem missing_credential_fails_first_witness:
  "(case ListTools_handler (example_world None (Some []) unreachable)
           \<lparr> api = None \<rparr> [] (example_request []) of (r, this', io') \<Rightarrow>
            r = Inl (McpError InvalidParams ''API key is required to call the tool'')
            \<and> this' = \<lparr> api = None \<rparr> \<and> constructions io' = [] \<and> fetches io' = [])
   \<and> (case CallTool_handler (example_world None (Some []) unreachable)
           \<lparr> api = None \<rparr> [] (example_request []) of (r, this', io') \<Rightarrow>
            r = Inl (McpError InvalidParams ''API key is required to call the tool'')
            \<and> this' = \<lparr> api = None \<rparr> \<and> constructions io' = [] \<and> fetches io' = [])"
  using missing_credential_fails_first [of "example_world None (Some []) unreachable"
          "example_request []" "\<lparr> api = None \<rparr>" "[]"]
  by (simp add: example_world_def answering_def example_request_def ai302ApiKey_def getAuthValue_def truthy_str_def)

section \<open>The cached client\<close>

text \<open>
  Claim C3. The server holds at most one client instance: its field \<open>api\<close> is one
  optional instance. Let \<open>k\<close> be the credential resolved for a request. When the cached
  instance has credential \<open>k\<close> (the strings are equal), \<open>getApiInstance\<close> returns that
  instance and leaves the state and the events as they are. Otherwise (another credential,
  or nothing cached) it constructs exactly one instance, with credential \<open>k\<close>, which
  replaces the cached one. For both handlers: afterwards the cached instance has
  credential \<open>k\<close>; no instance was constructed when the cached one had credential \<open>k\<close>,
  and exactly one, with \<open>k\<close>, otherwise; and what was sent upstream (at most one request
  for a list, exactly one for a call) carries \<open>k\<close> as its bearer credential.
\<close>

theorem client_cache:
  assumes "resolved_apiKey w (Some req) = Some k" and "k \<noteq> []"
  shows "(\<forall>a. api this = Some a \<and> apiKey a = k \<longrightarrow>
            getApiInstance w this io (Some req) = (Inr a, this, io))
       \<and> (\<not> (\<exists>a. api this = Some a \<and> apiKey a = k) \<longrightarrow>
            (\<exists>a' io'. getApiInstance w this io (Some req) = (Inr a', this\<lparr>api := Some a'\<rparr>, io')
               \<and> apiKey a' = k \<and> constructions io' = constructions io @ [k]))
       \<and> (case ListTools_handler w this io req of (r, this', io') \<Rightarrow>
            map_option apiKey (api this') = Some k
            \<and> constructions io' = constructions io @ (if \<exists>c. api this = Some c \<and> apiKey c = k then [] else [k])
            \<and> (\<exists>qs. fetches io' = fetches io @ qs \<and> length qs \<le> 1
                  \<and> (\<forall>q \<in> set qs. map_of (headers q) ''Authorization'' = Some (''Bearer '' @ k))))
       \<and> (case CallTool_handler w this io req of (r, this', io') \<Rightarrow>
            map_option apiKey (api this') = Some k
            \<and> constructions io' = constructions io @ (if \<exists>c. api this = Some c \<and> apiKey c = k then [] else [k])
            \<and> (\<exists>q. fetches io' = fetches io @ [q]
                  \<and> map_of (headers q) ''Authorization'' = Some (''Bearer '' @ k)
                  \<and> map_of (headers q) ''x-api-key'' = Some k))"
proof (intro conjI)
  show "\<forall>a. api this = Some a \<and> apiKey a = k \<longrightarrow>
            getApiInstance w this io (Some req) = (Inr a, this, io)"
    using assms by (simp add: getApiInstance_reuse)
  show "\<not> (\<exists>a. api this = Some a \<and> apiKey a = k) \<longrightarrow>
            (\<exists>a' io'. getApiInstance w this io (Some req) = (Inr a', this\<lparr>api := Some a'\<rparr>, io')
               \<and> apiKey a' = k \<and> constructions io' = constructions io @ [k])"
    using assms by (simp add: getApiInstance_create)
  show "case ListTools_handler w this io req of (r, this', io') \<Rightarrow>
            map_option apiKey (api this') = Some k
            \<and> constructions io' = constructions io @ (if \<exists>c. api this = Some c \<and> apiKey c = k then [] else [k])
            \<and> (\<exists>qs. fetches io' = fetches io @ qs \<and> length qs \<le> 1
                  \<and> (\<forall>q \<in> set qs. map_of (headers q) ''Authorization'' = Some (''Bearer '' @ k)))"
    using assms by (rule ListTools_handler_cache)
  show "case CallTool_handler w this io req of (r, this', io') \<Rightarrow>
            map_option apiKey (api this') = Some k
            \<and> constructions io' = constructions io @ (if \<exists>c. api this = Some c \<and> apiKey c = k then [] else [k])
            \<and> (\<exists>q. fetches io' = fetches io @ [q]
                  \<and> map_of (headers q) ''Authorization'' = Some (''Bearer '' @ k)
                  \<and> map_of (headers q) ''x-api-key'' = Some k)"
    using assms by (rule CallTool_handler_cache)
qed

theorem client_cache_witness:
  "resolved_apiKey (example_world None None unreachable)
      (Some (example_request [(''302AI_API_KEY'', ''X'')])) = Some ''X''
   \<and> getApiInstance (example_world None None unreachable)
        \<lparr> api = Some \<lparr> baseUrl = ''https://api.302.ai/mcp'', apiKey = ''X'' \<rparr> \<rparr> []
        (Some (example_request [(''302AI_API_KEY'', ''X'')]))
      = (Inr \<lparr> baseUrl = ''https://api.302.ai/mcp'', apiKey = ''X'' \<rparr>,
         \<lparr> api = Some \<lparr> baseUrl = ''https://api.302.ai/mcp'', apiKey = ''X'' \<rparr> \<rparr>, [])
   \<and> (\<exists>a' io'. getApiInstance (example_world None None unreachable)
        \<lparr> api = Some \<lparr> baseUrl = ''https://api.302.ai/mcp'', apiKey = ''Y'' \<rparr> \<rparr> []
        (Some (example_request [(''302AI_API_KEY'', ''X'')]))
      = (Inr a', \<lparr> api = Some a' \<rparr>, io') \<and> apiKey a' = ''X'' \<and> constructions io' = [''X''])
   \<and> (case CallTool_handler (example_world None None unreachable)
        \<lparr> api = Some \<lparr> baseUrl = ''https://api.302.ai/mcp'', apiKey = ''Y'' \<rparr> \<rparr> []
        (example_request [(''302AI_API_KEY'', ''X'')]) of (r, this', io') \<Rightarrow>
          map_option apiKey (api this') = Some ''X'' \<and> constructions io' = [''X'']
          \<and> (\<exists>q. fetches io' = [q] \<and> map_of (headers q) ''Authorization'' = Some ''Bearer X''
                 \<and> map_of (headers q) ''x-api-key'' = Some ''X''))"
  using client_cache [of "example_world None None unreachable"
          "example_request [(''302AI_API_KEY'', ''X'')]" "''X''"
          "\<lparr> api = Some \<lparr> baseUrl = ''https://api.302.ai/mcp'', apiKey = ''X'' \<rparr> \<rparr>" "[]"]
        client_cache [of "example_world None None unreachable"
          "example_request [(''302AI_API_KEY'', ''X'')]" "''X''"
          "\<lparr> api = Some \<lparr> baseUrl = ''https://api.302.ai/mcp'', apiKey = ''Y'' \<rparr> \<rparr>" "[]"]
  by (simp add: resolved_apiKey_def js_or_def example_world_def answering_def example_request_def ai302ApiKey_def
        getAuthValue_def truthy_str_def)

text \<open>
  Two call operations in a row, both with a resolved credential: the second constructs no
  instance when its credential is that of the first, and exactly one when it differs.
\<close>

lemma sequential_calls_cache:
  assumes "resolved_apiKey w1 (Some req1) = Some k1" "k1 \<noteq> []"
    and "resolved_apiKey w2 (Some req2) = Some k2" "k2 \<noteq> []"
    and "CallTool_handler w1 this io req1 = (r1, this1, io1)"
    and "CallTool_handler w2 this1 io1 req2 = (r2, this2, io2)"
  shows "constructions io2 = constructions io1 @ (if k2 = k1 then [] else [k2])"
proof -
  from CallTool_handler_cache [OF assms(1,2), of io this] assms(5)
  have "map_option apiKey (api this1) = Some k1" by simp
  then have c: "(\<exists>c. api this1 = Some c \<and> apiKey c = k2) \<longleftrightarrow> k2 = k1" by auto
  from CallTool_handler_cache [OF assms(3,4), of io1 this1] assms(6)
  have "constructions io2 = constructions io1 @ (if \<exists>c. api this1 = Some c \<and> apiKey c = k2 then [] else [k2])"
    by simp
  with c show ?thesis by simp
qed

section \<open>Failures reach the caller as they are\<close>

text \<open>
  Claim C4. A list operation fails with an error \<open>e\<close> exactly when the resolver failed
  with \<open>e\<close>, or the resolver returned a client and that client's \<open>listTools\<close> failed with
  \<open>e\<close>; likewise a call operation and \<open>callTool\<close>. So a failure of the resolver or of the
  client reaches the caller with its kind and message unchanged, is never replaced by a
  result, and the handlers add no failure of their own. Nothing is tried again: an
  operation sends at most one request upstream.
\<close>

theorem handler_errors_unchanged:
  "(fst (ListTools_handler w this io req) = Inl e \<longleftrightarrow>
      (\<exists>this' io2. getApiInstance w this (Logger_debug w io ''Handling list tools request'' None) (Some req)
                     = (Inl e, this', io2))
      \<or> (\<exists>a this' io2. getApiInstance w this (Logger_debug w io ''Handling list tools request'' None) (Some req)
                     = (Inr a, this', io2)
            \<and> fst (listTools w a io2) = Inl e))
   \<and> (fst (CallTool_handler w this io req) = Inl e \<longleftrightarrow>
      (\<exists>this' io2. getApiInstance w this (Logger_debug w io ''Handling call tool request''
                        (Some (JObj [(''toolName'', JStr (name req))]))) (Some req)
                     = (Inl e, this', io2))
      \<or> (\<exists>a this' io2. getApiInstance w this (Logger_debug w io ''Handling call tool request''
                        (Some (JObj [(''toolName'', JStr (name req))]))) (Some req)
                     = (Inr a, this', io2)
            \<and> fst (callTool w a (name req) (arguments req) io2) = Inl e))
   \<and> length (fetches (snd (snd (ListTools_handler w this io req)))) \<le> Suc (length (fetches io))
   \<and> length (fetches (snd (snd (CallTool_handler w this io req)))) \<le> Suc (length (fetches io))"
proof -
  have "fst (ListTools_handler w this io req) = Inl e \<longleftrightarrow>
      (\<exists>this' io2. getApiInstance w this (Logger_debug w io ''Handling list tools request'' None) (Some req)
                     = (Inl e, this', io2))
      \<or> (\<exists>a this' io2. getApiInstance w this (Logger_debug w io ''Handling list tools request'' None) (Some req)
                     = (Inr a, this', io2)
            \<and> fst (listTools w a io2) = Inl e)"
    by (auto simp add: ListTools_handler_fst split: sum.splits prod.splits)
  moreover have "fst (CallTool_handler w this io req) = Inl e \<longleftrightarrow>
      (\<exists>this' io2. getApiInstance w this (Logger_debug w io ''Handling call tool request''
                        (Some (JObj [(''toolName'', JStr (name req))]))) (Some req)
                     = (Inl e, this', io2))
      \<or> (\<exists>a this' io2. getApiInstance w this (Logger_debug w io ''Handling call tool request''
                        (Some (JObj [(''toolName'', JStr (name req))]))) (Some req)
                     = (Inr a, this', io2)
            \<and> fst (callTool w a (name req) (arguments req) io2) = Inl e)"
    by (auto simp add: CallTool_handler_fst split: sum.splits prod.splits)
  ultimately show ?thesis
    using handlers_one_fetch [of w this io req] by blast
qed

theorem handler_errors_unchanged_witness:
  "fst (ListTools_handler (example_world None None unreachable)
          \<lparr> api = None \<rparr> [] (example_request []))
     = Inl (McpError InvalidParams ''API key is required to call the tool'')
   \<and> fst (CallTool_handler (example_world None None unreachable)
          \<lparr> api = None \<rparr> [] (example_request []))
     = Inl (McpError InvalidParams ''API key is required to call the tool'')"
proof -
  let ?w = "example_world None None unreachable"
  have m: "\<not> truthy_str (resolved_apiKey ?w (Some (example_request [])))"
    by (simp add: resolved_apiKey_def js_or_def example_world_def answering_def example_request_def ai302ApiKey_def
          getAuthValue_def truthy_str_def)
  show ?thesis
    using handler_errors_unchanged [of ?w "\<lparr> api = None \<rparr>" "[]" "example_request []"
            "McpError InvalidParams ''API key is required to call the tool''"]
    by (simp add: getApiInstance_missing [OF m])
qed

section \<open>Upstream answers with a non-success status\<close>

text \<open>
  Claim C5. When the upstream answers with a status outside 200 to 299, \<open>listTools\<close> and
  \<open>callTool\<close> fail with \<open>InternalError\<close>, and so do the two handlers when every client
  with the resolved credential gets that answer. The message is the fixed text of the
  operation followed by \<^verbatim>\<open>HTTP <status>: <statusText>\<close>, so the decimal status code
  and the reason text are parts of it; for status 500 the code reads \<^verbatim>\<open>500\<close>.
\<close>

theorem http_error_status:
  assumes "\<not> ok r"
  shows "(URL_toString w (baseUrl a @ ''/v1/tool/list'')
             [(''packId'', ''imageTools''), (''user302'', ''user302'')] = Inr u
          \<and> fetch w (listTools_request a u) = Inr r \<longrightarrow>
            fst (listTools w a io) =
              Inl (McpError InternalError
                (''Failed to fetch tools: MCP error -32603: HTTP '' @ show_nat (status r) @ '': '' @ statusText r)))
       \<and> (fetch w (callTool_request a n args) = Inr r \<longrightarrow>
            fst (callTool w a n args io) =
              Inl (McpError InternalError
                (''Tool call failed: MCP error -32603: HTTP '' @ show_nat (status r) @ '': '' @ statusText r)))
       \<and> (resolved_apiKey w (Some req) = Some k \<and> k \<noteq> []
          \<and> (\<forall>c. apiKey c = k \<longrightarrow>
                (\<exists>v. URL_toString w (baseUrl c @ ''/v1/tool/list'')
                        [(''packId'', ''imageTools''), (''user302'', ''user302'')] = Inr v
                     \<and> fetch w (listTools_request c v) = Inr r)) \<longrightarrow>
            fst (ListTools_handler w this io req) =
              Inl (McpError InternalError
                (''Failed to fetch tools: MCP error -32603: HTTP '' @ show_nat (status r) @ '': '' @ statusText r)))
       \<and> (resolved_apiKey w (Some req) = Some k \<and> k \<noteq> []
          \<and> (\<forall>c. apiKey c = k \<longrightarrow> fetch w (callTool_request c (name req) (arguments req)) = Inr r) \<longrightarrow>
            fst (CallTool_handler w this io req) =
              Inl (McpError InternalError
                (''Tool call failed: MCP error -32603: HTTP '' @ show_nat (status r) @ '': '' @ statusText r)))
       \<and> sublist (show_nat (status r))
            (''Failed to fetch tools: MCP error -32603: HTTP '' @ show_nat (status r) @ '': '' @ statusText r)
       \<and> sublist (statusText r)
            (''Failed to fetch tools: MCP error -32603: HTTP '' @ show_nat (status r) @ '': '' @ statusText r)
       \<and> sublist (show_nat (status r))
            (''Tool call failed: MCP error -32603: HTTP '' @ show_nat (status r) @ '': '' @ statusText r)
       \<and> sublist (statusText r)
            (''Tool call failed: MCP error -32603: HTTP '' @ show_nat (status r) @ '': '' @ statusText r)
       \<and> (status r = 500 \<longrightarrow> show_nat (status r) = ''500'')"
proof (intro conjI impI)
  assume "URL_toString w (baseUrl a @ ''/v1/tool/list'')
             [(''packId'', ''imageTools''), (''user302'', ''user302'')] = Inr u
          \<and> fetch w (listTools_request a u) = Inr r"
  with assms show "fst (listTools w a io) =
              Inl (McpError InternalError
                (''Failed to fetch tools: MCP error -32603: HTTP '' @ show_nat (status r) @ '': '' @ statusText r))"
    by (simp add: listTools_http_error)
next
  assume "fetch w (callTool_request a n args) = Inr r"
  with assms show "fst (callTool w a n args io) =
              Inl (McpError InternalError
                (''Tool call failed: MCP error -32603: HTTP '' @ show_nat (status r) @ '': '' @ statusText r))"
    by (simp add: callTool_http_error)
next
  assume h: "resolved_apiKey w (Some req) = Some k \<and> k \<noteq> []
          \<and> (\<forall>c. apiKey c = k \<longrightarrow>
                (\<exists>v. URL_toString w (baseUrl c @ ''/v1/tool/list'')
                        [(''packId'', ''imageTools''), (''user302'', ''user302'')] = Inr v
                     \<and> fetch w (listTools_request c v) = Inr r))"
  then obtain c io2 where c: "apiKey c = k"
    and f: "fst (ListTools_handler w this io req) =
             (case fst (listTools w c io2) of Inl e \<Rightarrow> Inl e | Inr tls \<Rightarrow> Inr \<lparr> tools = tls \<rparr>)"
    using ListTools_handler_client [of w req k this io] by blast
  from h c obtain v where "URL_toString w (baseUrl c @ ''/v1/tool/list'')
                        [(''packId'', ''imageTools''), (''user302'', ''user302'')] = Inr v"
    "fetch w (listTools_request c v) = Inr r" by blast
  from listTools_http_error [OF assms this, of io2] f
  show "fst (ListTools_handler w this io req) =
              Inl (McpError InternalError
                (''Failed to fetch tools: MCP error -32603: HTTP '' @ show_nat (status r) @ '': '' @ statusText r))"
    by simp
next
  assume h: "resolved_apiKey w (Some req) = Some k \<and> k \<noteq> []
          \<and> (\<forall>c. apiKey c = k \<longrightarrow> fetch w (callTool_request c (name req) (arguments req)) = Inr r)"
  then obtain c io2 where c: "apiKey c = k"
    and f: "fst (CallTool_handler w this io req) =
             (case fst (callTool w c (name req) (arguments req) io2) of
                Inl e \<Rightarrow> Inl e
              | Inr cont \<Rightarrow> Inr \<lparr> content = [\<lparr> type' = ''text'',
                                      text' = JSON_stringify_space (JObj [(''content'', cont)]) 2 \<rparr>] \<rparr>)"
    using CallTool_handler_client [of w req k this io] by blast
  from h c have "fetch w (callTool_request c (name req) (arguments req)) = Inr r" by blast
  from callTool_http_error [OF assms this, of io2] f
  show "fst (CallTool_handler w this io req) =
              Inl (McpError InternalError
                (''Tool call failed: MCP error -32603: HTTP '' @ show_nat (status r) @ '': '' @ statusText r))"
    by simp
next
  show "sublist (show_nat (status r))
            (''Failed to fetch tools: MCP error -32603: HTTP '' @ show_nat (status r) @ '': '' @ statusText r)"
    by (rule sublist_mid)
  show "sublist (statusText r)
            (''Failed to fetch tools: MCP error -32603: HTTP '' @ show_nat (status r) @ '': '' @ statusText r)"
    using sublist_end [of "statusText r" "''Failed to fetch tools: MCP error -32603: HTTP '' @ show_nat (status r) @ '': ''"]
    by simp
  show "sublist (show_nat (status r))
            (''Tool call failed: MCP error -32603: HTTP '' @ show_nat (status r) @ '': '' @ statusText r)"
    by (rule sublist_mid)
  show "sublist (statusText r)
            (''Tool call failed: MCP error -32603: HTTP '' @ show_nat (status r) @ '': '' @ statusText r)"
    using sublist_end [of "statusText r" "''Tool call failed: MCP error -32603: HTTP '' @ show_nat (status r) @ '': ''"]
    by simp
next
  assume "status r = 500"
  then show "show_nat (status r) = ''500''" by (simp add: show_nat_500)
qed

theorem http_error_status_witness:
  "\<not> ok \<lparr> status = 500, statusText = ''Internal Server Error'', body_text = ''boom'',
            decoded = Inl (SyntaxError ''Unexpected token'') \<rparr>
   \<and> fst (ListTools_handler
            (example_world (Some ''K'') None
               (answering \<lparr> status = 500, statusText = ''Internal Server Error'', body_text = ''boom'',
                            decoded = Inl (SyntaxError ''Unexpected token'') \<rparr>))
            \<lparr> api = None \<rparr> [] (example_request []))
       = Inl (McpError InternalError ''Failed to fetch tools: MCP error -32603: HTTP 500: Internal Server Error'')
   \<and> fst (CallTool_handler
            (example_world (Some ''K'') None
               (answering \<lparr> status = 500, statusText = ''Internal Server Error'', body_text = ''boom'',
                            decoded = Inl (SyntaxError ''Unexpected token'') \<rparr>))
            \<lparr> api = None \<rparr> [] (example_request []))
       = Inl (McpError InternalError ''Tool call failed: MCP error -32603: HTTP 500: Internal Server Error'')
   \<and> sublist ''500'' ''Failed to fetch tools: MCP error -32603: HTTP 500: Internal Server Error''
   \<and> sublist ''Internal Server Error''
        ''Failed to fetch tools: MCP error -32603: HTTP 500: Internal Server Error''"
  using http_error_status [of "\<lparr> status = 500, statusText = ''Internal Server Error'', body_text = ''boom'',
            decoded = Inl (SyntaxError ''Unexpected token'') \<rparr>"
          "example_world (Some ''K'') None
               (answering \<lparr> status = 500, statusText = ''Internal Server Error'', body_text = ''boom'',
                            decoded = Inl (SyntaxError ''Unexpected token'') \<rparr>)"
          "\<lparr> baseUrl = ''https://api.302.ai/mcp'', apiKey = ''K'' \<rparr>" "''u''" "[]" "''upscale''" None
          "example_request []" "''K''" "\<lparr> api = None \<rparr>"]
  by (simp add: ok_def resolved_apiKey_def js_or_def example_world_def answering_def ai302ApiKey_def truthy_str_def
        show_nat_500)

section \<open>The result of a call\<close>

lemma stringify_result_ok:
  "JSON_stringify_space (JObj [(''content'', JObj [(''result'', JStr ''ok'')])]) 2
     = ''{\<newline>  \"content\": {\<newline>    \"result\": \"ok\"\<newline>  }\<newline>}''"
  by (simp add: JSON_stringify_space_def QuoteJSONString_def quote_char_def numeral_2_eq_2)

text \<open>
  Claim C6. When a credential is resolved and the upstream answers the call request with
  a success status and a body that decodes to \<open>R\<close>, the call handler returns one content
  item of type \<^verbatim>\<open>text\<close> whose text is \<^verbatim>\<open>JSON.stringify({ content: R }, null, 2)\<close>.
  For \<open>R\<close> the object with the one property \<^verbatim>\<open>result\<close> of value \<^verbatim>\<open>ok\<close>, that text
  is the five lines given, indented by two and four spaces.
\<close>

theorem call_result_envelope:
  assumes "resolved_apiKey w (Some req) = Some k" and "k \<noteq> []"
    and "\<And>c. apiKey c = k \<Longrightarrow> fetch w (callTool_request c (name req) (arguments req)) = Inr r"
    and "ok r" and "decoded r = Inr R"
  shows "fst (CallTool_handler w this io req)
           = Inr \<lparr> content = [\<lparr> type' = ''text'',
                                text' = JSON_stringify_space (JObj [(''content'', R)]) 2 \<rparr>] \<rparr>
       \<and> JSON_stringify_space (JObj [(''content'', JObj [(''result'', JStr ''ok'')])]) 2
           = ''{\<newline>  \"content\": {\<newline>    \"result\": \"ok\"\<newline>  }\<newline>}''"
proof
  from CallTool_handler_client [OF assms(1,2), of this io]
  obtain c io2 where c: "apiKey c = k"
    and f: "fst (CallTool_handler w this io req) =
             (case fst (callTool w c (name req) (arguments req) io2) of
                Inl e \<Rightarrow> Inl e
              | Inr cont \<Rightarrow> Inr \<lparr> content = [\<lparr> type' = ''text'',
                                      text' = JSON_stringify_space (JObj [(''content'', cont)]) 2 \<rparr>] \<rparr>)"
    by blast
  from assms(3) [OF c] assms(4,5) have "fst (callTool w c (name req) (arguments req) io2) = Inr R"
    by (rule callTool_success)
  with f show "fst (CallTool_handler w this io req)
           = Inr \<lparr> content = [\<lparr> type' = ''text'',
                                text' = JSON_stringify_space (JObj [(''content'', R)]) 2 \<rparr>] \<rparr>"
    by simp
next
  show "JSON_stringify_space (JObj [(''content'', JObj [(''result'', JStr ''ok'')])]) 2
           = ''{\<newline>  \"content\": {\<newline>    \"result\": \"ok\"\<newline>  }\<newline>}''"
    by (rule stringify_result_ok)
qed

theorem call_result_envelope_witness:
  "fst (CallTool_handler
          (example_world (Some ''K'') None
             (answering \<lparr> status = 200, statusText = ''OK'', body_text = ''{\"result\":\"ok\"}'',
                          decoded = Inr (JObj [(''result'', JStr ''ok'')]) \<rparr>))
          \<lparr> api = None \<rparr> [] (example_request []))
     = Inr \<lparr> content = [\<lparr> type' = ''text'',
                          text' = ''{\<newline>  \"content\": {\<newline>    \"result\": \"ok\"\<newline>  }\<newline>}'' \<rparr>] \<rparr>"
  using call_result_envelope [of "example_world (Some ''K'') None
             (answering \<lparr> status = 200, statusText = ''OK'', body_text = ''{\"result\":\"ok\"}'',
                          decoded = Inr (JObj [(''result'', JStr ''ok'')]) \<rparr>)"
          "example_request []" "''K''"
          "\<lparr> status = 200, statusText = ''OK'', body_text = ''{\"result\":\"ok\"}'',
                          decoded = Inr (JObj [(''result'', JStr ''ok'')]) \<rparr>"
          "JObj [(''result'', JStr ''ok'')]" "\<lparr> api = None \<rparr>" "[]"]
  by (simp add: ok_def resolved_apiKey_def js_or_def example_world_def answering_def ai302ApiKey_def truthy_str_def)

section \<open>Choice of the transport\<close>

text \<open>
  Claim C7. \<open>run\<close> constructs exactly one transport and attaches exactly that one: the
  REST transport, on the configured port and endpoint, when the mode is \<^verbatim>\<open>rest\<close>,
  and the standard-stream transport for every other mode. A listener is started only in
  REST mode (once the transport is attached). \<open>run\<close> succeeds when attaching and starting
  do. A parameter that is absent or empty takes its default: mode \<^verbatim>\<open>stdio\<close>, port
  9593, endpoint \<^verbatim>\<open>/rest\<close>.
\<close>

theorem run_selects_transport:
  "transports (snd (run w io)) =
      transports io @ [if mode w = ''rest'' then RestServerTransport (Number (port w)) (endpoint w)
                       else StdioServerTransport]
   \<and> connected (snd (run w io)) =
      connected io @ [if mode w = ''rest'' then RestServerTransport (Number (port w)) (endpoint w)
                      else StdioServerTransport]
   \<and> started (snd (run w io)) =
      started io + (if mode w = ''rest''
                       \<and> connect_error w (RestServerTransport (Number (port w)) (endpoint w)) = None
                    then 1 else 0)
   \<and> (connect_error w (if mode w = ''rest'' then RestServerTransport (Number (port w)) (endpoint w)
                        else StdioServerTransport) = None
        \<and> (mode w = ''rest'' \<longrightarrow> startServer_error w = None)
      \<longrightarrow> fst (run w io) = Inr ())
   \<and> (\<not> truthy_str (getParamValue w ''mode'') \<longrightarrow> mode w = ''stdio'')
   \<and> (\<not> truthy_str (getParamValue w ''port'') \<longrightarrow> port w = JNum 9593)
   \<and> (\<not> truthy_str (getParamValue w ''endpoint'') \<longrightarrow> endpoint w = ''/rest'')
   \<and> (\<forall>v. getParamValue w ''mode'' = Some v \<and> v \<noteq> [] \<longrightarrow> mode w = v)
   \<and> (\<forall>v. getParamValue w ''port'' = Some v \<and> v \<noteq> [] \<longrightarrow> port w = JStr v)
   \<and> (\<forall>v. getParamValue w ''endpoint'' = Some v \<and> v \<noteq> [] \<longrightarrow> endpoint w = v)"
proof (intro conjI)
  show "transports (snd (run w io)) =
      transports io @ [if mode w = ''rest'' then RestServerTransport (Number (port w)) (endpoint w)
                       else StdioServerTransport]"
    by (simp add: run_def Let_def split: option.splits)
  show "connected (snd (run w io)) =
      connected io @ [if mode w = ''rest'' then RestServerTransport (Number (port w)) (endpoint w)
                      else StdioServerTransport]"
    by (simp add: run_def Let_def split: option.splits)
  show "started (snd (run w io)) =
      started io + (if mode w = ''rest''
                       \<and> connect_error w (RestServerTransport (Number (port w)) (endpoint w)) = None
                    then 1 else 0)"
    by (simp add: run_def Let_def split: option.splits)
  show "connect_error w (if mode w = ''rest'' then RestServerTransport (Number (port w)) (endpoint w)
                        else StdioServerTransport) = None
        \<and> (mode w = ''rest'' \<longrightarrow> startServer_error w = None)
      \<longrightarrow> fst (run w io) = Inr ()"
    by (simp add: run_def Let_def split: option.splits)
  show "\<not> truthy_str (getParamValue w ''mode'') \<longrightarrow> mode w = ''stdio''"
    by (simp add: mode_def js_or_def)
  show "\<not> truthy_str (getParamValue w ''port'') \<longrightarrow> port w = JNum 9593"
    by (simp add: port_def)
  show "\<not> truthy_str (getParamValue w ''endpoint'') \<longrightarrow> endpoint w = ''/rest''"
    by (simp add: endpoint_def js_or_def)
  show "\<forall>v. getParamValue w ''mode'' = Some v \<and> v \<noteq> [] \<longrightarrow> mode w = v"
    by (simp add: mode_def js_or_def truthy_str_def)
  show "\<forall>v. getParamValue w ''port'' = Some v \<and> v \<noteq> [] \<longrightarrow> port w = JStr v"
    by (simp add: port_def truthy_str_def)
  show "\<forall>v. getParamValue w ''endpoint'' = Some v \<and> v \<noteq> [] \<longrightarrow> endpoint w = v"
    by (simp add: endpoint_def js_or_def truthy_str_def)
qed

theorem run_selects_transport_witness:
  "transports (snd (run ((example_world None None unreachable)
                          \<lparr> getParamValue := (\<lambda>k. if k = ''mode'' then Some ''rest'' else None) \<rparr>) []))
     = [RestServerTransport (Number (JNum 9593)) ''/rest'']
   \<and> connected (snd (run ((example_world None None unreachable)
                          \<lparr> getParamValue := (\<lambda>k. if k = ''mode'' then Some ''rest'' else None) \<rparr>) []))
     = [RestServerTransport (Number (JNum 9593)) ''/rest'']
   \<and> started (snd (run ((example_world None None unreachable)
                          \<lparr> getParamValue := (\<lambda>k. if k = ''mode'' then Some ''rest'' else None) \<rparr>) [])) = 1
   \<and> fst (run ((example_world None None unreachable)
                          \<lparr> getParamValue := (\<lambda>k. if k = ''mode'' then Some ''rest'' else None) \<rparr>) []) = Inr ()
   \<and> transports (snd (run (example_world None None unreachable) []))
     = [StdioServerTransport]
   \<and> connected (snd (run (example_world None None unreachable) []))
     = [StdioServerTransport]
   \<and> started (snd (run (example_world None None unreachable) [])) = 0
   \<and> mode (example_world None None unreachable) = ''stdio''
   \<and> port (example_world None None unreachable) = JNum 9593
   \<and> endpoint (example_world None None unreachable) = ''/rest''"
  using run_selects_transport [of "(example_world None None unreachable)
                          \<lparr> getParamValue := (\<lambda>k. if k = ''mode'' then Some ''rest'' else None) \<rparr>" "[]"]
        run_selects_transport [of "example_world None None unreachable" "[]"]
  by (simp add: example_world_def answering_def truthy_str_def)

section \<open>A log file that cannot be written\<close>

lemma getApiInstance_fs:
  "fst (getApiInstance (w\<lparr>appendFileSync_error := f\<rparr>) this io' req) = fst (getApiInstance w this io req)
   \<and> fst (snd (getApiInstance (w\<lparr>appendFileSync_error := f\<rparr>) this io' req))
       = fst (snd (getApiInstance w this io req))"
  by (simp add: getApiInstance_def resolved_apiKey_def ai302ApiKey_def new_AI302Api_def Let_def split_beta
        split: option.splits)

lemma listTools_fs:
  "fst (listTools (w\<lparr>appendFileSync_error := f\<rparr>) a io') = fst (listTools w a io)"
  by (simp add: listTools_fst listTools_try_fst split: sum.splits)

lemma callTool_fs:
  "fst (callTool (w\<lparr>appendFileSync_error := f\<rparr>) a n args io') = fst (callTool w a n args io)"
  by (simp add: callTool_fst callTool_try_fst split: sum.splits)

lemma ListTools_handler_fst2:
  "fst (ListTools_handler w this io req) =
     (case fst (getApiInstance w this (Logger_debug w io ''Handling list tools request'' None) (Some req)) of
        Inl e \<Rightarrow> Inl e
      | Inr a \<Rightarrow> (case fst (listTools w a []) of Inl e \<Rightarrow> Inl e | Inr tls \<Rightarrow> Inr \<lparr> tools = tls \<rparr>))"
  by (simp add: ListTools_handler_fst listTools_fst listTools_try_fst split: prod.splits sum.splits)

lemma CallTool_handler_fst2:
  "fst (CallTool_handler w this io req) =
     (case fst (getApiInstance w this (Logger_debug w io ''Handling call tool request''
                  (Some (JObj [(''toolName'', JStr (name req))]))) (Some req)) of
        Inl e \<Rightarrow> Inl e
      | Inr a \<Rightarrow>
          (case fst (callTool w a (name req) (arguments req) []) of
             Inl e \<Rightarrow> Inl e
           | Inr cont \<Rightarrow> Inr \<lparr> content = [\<lparr> type' = ''text'',
                                      text' = JSON_stringify_space (JObj [(''content'', cont)]) 2 \<rparr>] \<rparr>))"
  by (simp add: CallTool_handler_fst callTool_fst callTool_try_fst split: prod.splits sum.splits)

lemma ListTools_handler_state:
  "fst (snd (ListTools_handler w this io req)) =
     fst (snd (getApiInstance w this (Logger_debug w io ''Handling list tools request'' None) (Some req)))"
  by (simp add: ListTools_handler_def Let_def split: prod.splits sum.splits)

lemma CallTool_handler_state:
  "fst (snd (CallTool_handler w this io req)) =
     fst (snd (getApiInstance w this (Logger_debug w io ''Handling call tool request''
                  (Some (JObj [(''toolName'', JStr (name req))]))) (Some req)))"
  by (simp add: CallTool_handler_def Let_def split: prod.splits sum.splits)

text \<open>
  Claim C8. When the append to the log file fails, \<open>writeLog\<close> prints the failure on the
  console and returns. What a list or a call operation returns, and the state it leaves,
  do not depend on whether appends to the log file fail.
\<close>

theorem log_failure_contained:
  "(appendFileSync_error w (length io) = Some e \<longrightarrow>
      writeLog w io m = io @ [ConsoleError (''Failed to write log: '' @ e)])
   \<and> fst (ListTools_handler (w\<lparr>appendFileSync_error := f\<rparr>) this io req)
       = fst (ListTools_handler w this io req)
   \<and> fst (snd (ListTools_handler (w\<lparr>appendFileSync_error := f\<rparr>) this io req))
       = fst (snd (ListTools_handler w this io req))
   \<and> fst (CallTool_handler (w\<lparr>appendFileSync_error := f\<rparr>) this io req)
       = fst (CallTool_handler w this io req)
   \<and> fst (snd (CallTool_handler (w\<lparr>appendFileSync_error := f\<rparr>) this io req))
       = fst (snd (CallTool_handler w this io req))"
proof (intro conjI impI)
  assume "appendFileSync_error w (length io) = Some e"
  then show "writeLog w io m = io @ [ConsoleError (''Failed to write log: '' @ e)]"
    by (simp add: writeLog_def)
next
  let ?w = "w\<lparr>appendFileSync_error := f\<rparr>"
  have g: "fst (getApiInstance ?w this (Logger_debug ?w io ''Handling list tools request'' None) (Some req))
         = fst (getApiInstance w this (Logger_debug w io ''Handling list tools request'' None) (Some req))"
    using getApiInstance_fs by blast
  have l: "\<And>a. fst (listTools ?w a []) = fst (listTools w a [])"
    by (rule listTools_fs)
  show "fst (ListTools_handler ?w this io req) = fst (ListTools_handler w this io req)"
    unfolding ListTools_handler_fst2 g l ..
  show "fst (snd (ListTools_handler ?w this io req)) = fst (snd (ListTools_handler w this io req))"
    unfolding ListTools_handler_state using getApiInstance_fs by blast
  have g2: "fst (getApiInstance ?w this (Logger_debug ?w io ''Handling call tool request''
                  (Some (JObj [(''toolName'', JStr (name req))]))) (Some req))
         = fst (getApiInstance w this (Logger_debug w io ''Handling call tool request''
                  (Some (JObj [(''toolName'', JStr (name req))]))) (Some req))"
    using getApiInstance_fs by blast
  have c: "\<And>a. fst (callTool ?w a (name req) (arguments req) []) = fst (callTool w a (name req) (arguments req) [])"
    by (rule callTool_fs)
  show "fst (CallTool_handler ?w this io req) = fst (CallTool_handler w this io req)"
    unfolding CallTool_handler_fst2 g2 c ..
  show "fst (snd (CallTool_handler ?w this io req)) = fst (snd (CallTool_handler w this io req))"
    unfolding CallTool_handler_state using getApiInstance_fs by blast
qed

theorem log_failure_contained_witness:
  "writeLog ((example_world (Some ''K'') None unreachable)
               \<lparr>appendFileSync_error := (\<lambda>n. Some ''EACCES: permission denied'')\<rparr>) [] ''line''
     = [ConsoleError ''Failed to write log: EACCES: permission denied'']
   \<and> fst (CallTool_handler ((example_world (Some ''K'') None unreachable)
               \<lparr>appendFileSync_error := (\<lambda>n. Some ''EACCES: permission denied'')\<rparr>)
            \<lparr> api = None \<rparr> [] (example_request []))
     = fst (CallTool_handler (example_world (Some ''K'') None unreachable)
            \<lparr> api = None \<rparr> [] (example_request []))"
  using log_failure_contained [of "(example_world (Some ''K'') None unreachable)
               \<lparr>appendFileSync_error := (\<lambda>n. Some ''EACCES: permission denied'')\<rparr>" "[]"
          "''EACCES: permission denied''" "''line''" "\<lambda>n. None" "\<lparr> api = None \<rparr>" "example_request []"]
  by (simp add: example_world_def answering_def)

section \<open>A success answer without tools\<close>

text \<open>
  Claim C9, amended. Let the upstream answer \<open>listTools\<close> with a success status and a
  body that decodes to \<open>data\<close>. When \<open>data\<close> is null, or its \<^verbatim>\<open>tools\<close> is absent or
  null, the property read throws, and the operation fails with \<open>InternalError\<close> and a
  message that begins with \<^verbatim>\<open>Failed to fetch tools:\<close>. When \<^verbatim>\<open>tools\<close> is present and
  not null it is returned as it is, whether or not it is an array. The operation never
  returns undefined.
\<close>

theorem tools_missing_is_internal_error:
  assumes "URL_toString w (baseUrl a @ ''/v1/tool/list'')
             [(''packId'', ''imageTools''), (''user302'', ''user302'')] = Inr u"
    and "fetch w (listTools_request a u) = Inr r" and "ok r" and "decoded r = Inr data"
  shows "(data = JNull \<or> get_prop (Some data) ''tools'' = Inr None
            \<or> get_prop (Some data) ''tools'' = Inr (Some JNull) \<longrightarrow>
          (\<exists>m. fst (listTools w a io) = Inl (McpError InternalError (''Failed to fetch tools: '' @ m))))
       \<and> (\<forall>v. get_prop (Some data) ''tools'' = Inr (Some v) \<and> v \<noteq> JNull \<longrightarrow>
            fst (listTools w a io) = Inr (Some v))
       \<and> fst (listTools w a io) \<noteq> Inr None"
proof (intro conjI impI allI)
  assume "data = JNull \<or> get_prop (Some data) ''tools'' = Inr None
            \<or> get_prop (Some data) ''tools'' = Inr (Some JNull)"
  then show "\<exists>m. fst (listTools w a io) = Inl (McpError InternalError (''Failed to fetch tools: '' @ m))"
    by (auto simp add: listTools_success [OF assms])
next
  fix v assume v: "get_prop (Some data) ''tools'' = Inr (Some v) \<and> v \<noteq> JNull"
  with get_prop_defined [of v "''length''"] obtain len where "get_prop (Some v) ''length'' = Inr len"
    by blast
  with v show "fst (listTools w a io) = Inr (Some v)"
    by (simp add: listTools_success [OF assms])
next
  show "fst (listTools w a io) \<noteq> Inr None"
    using listTools_defined [of w a io None] by auto
qed

theorem tools_missing_is_internal_error_witness:
  "fst (listTools (example_world (Some ''K'') None
                     (answering \<lparr> status = 200, statusText = ''OK'', body_text = ''{}'',
                                  decoded = Inr (JObj []) \<rparr>))
          \<lparr> baseUrl = ''https://api.302.ai/mcp'', apiKey = ''K'' \<rparr> [])
     \<noteq> Inr None
   \<and> (\<exists>m. fst (listTools (example_world (Some ''K'') None
                     (answering \<lparr> status = 200, statusText = ''OK'', body_text = ''{}'',
                                  decoded = Inr (JObj []) \<rparr>))
          \<lparr> baseUrl = ''https://api.302.ai/mcp'', apiKey = ''K'' \<rparr> [])
        = Inl (McpError InternalError (''Failed to fetch tools: '' @ m)))"
  using tools_missing_is_internal_error [of
          "example_world (Some ''K'') None
                     (answering \<lparr> status = 200, statusText = ''OK'', body_text = ''{}'',
                                  decoded = Inr (JObj []) \<rparr>)"
          "\<lparr> baseUrl = ''https://api.302.ai/mcp'', apiKey = ''K'' \<rparr>"
          "''https://api.302.ai/mcp/v1/tool/list?packId=imageTools&user302=user302''"
          "\<lparr> status = 200, statusText = ''OK'', body_text = ''{}'', decoded = Inr (JObj []) \<rparr>"
          "JObj []" "[]"]
  by (simp add: example_world_def answering_def ok_def)

text \<open>
  Claim C9 as it was stated fails: a success answer whose \<^verbatim>\<open>tools\<close> is the number 5
  holds no array of tools, and \<open>listTools\<close> returns the 5 without any failure.
\<close>

theorem tools_not_array_counterexample:
  "ok \<lparr> status = 200, statusText = ''OK'', body_text = ''{\"tools\":5}'',
        decoded = Inr (JObj [(''tools'', JNum 5)]) \<rparr>
   \<and> fst (listTools (example_world (Some ''K'') None
                     (answering \<lparr> status = 200, statusText = ''OK'', body_text = ''{\"tools\":5}'',
                                  decoded = Inr (JObj [(''tools'', JNum 5)]) \<rparr>))
          \<lparr> baseUrl = ''https://api.302.ai/mcp'', apiKey = ''K'' \<rparr> [])
     = Inr (Some (JNum 5))"
  by (simp add: listTools_fst listTools_try_fst example_world_def answering_def ok_def)

section \<open>The body of a failed answer stays in the log\<close>

text \<open>
  Claim C10. When the upstream answers with a non-success status, the failure raised by
  \<open>listTools\<close>, by \<open>callTool\<close> and by the two handlers is the same whatever the body
  text of the answer is: it is made of the status code and the status text alone. The
  body text is written to the log, in the entry that
  reports the failed request.
\<close>

theorem http_error_hides_body:
  assumes "\<not> ok r"
  shows "(URL_toString w (baseUrl a @ ''/v1/tool/list'')
             [(''packId'', ''imageTools''), (''user302'', ''user302'')] = Inr u
          \<and> fetch w (listTools_request a u) = Inr r
          \<and> URL_toString w' (baseUrl a @ ''/v1/tool/list'')
             [(''packId'', ''imageTools''), (''user302'', ''user302'')] = Inr u'
          \<and> fetch w' (listTools_request a u') = Inr (r\<lparr>body_text := b\<rparr>) \<longrightarrow>
            fst (listTools w' a io') = fst (listTools w a io)
            \<and> (\<exists>t. ConsoleError (''['' @ t @ ''] [ERROR] Failed to fetch tools list '' @
                      JSON_stringify (JObj [(''status'', JNum (int (status r))),
                                            (''statusText'', JStr (statusText r)),
                                            (''error'', JStr (body_text r))]))
                    \<in> set (snd (listTools w a io))))
       \<and> (fetch w (callTool_request a n args) = Inr r
          \<and> fetch w' (callTool_request a n args) = Inr (r\<lparr>body_text := b\<rparr>) \<longrightarrow>
            fst (callTool w' a n args io') = fst (callTool w a n args io)
            \<and> (\<exists>t. ConsoleError (''['' @ t @ ''] [ERROR] Tool call failed '' @
                      JSON_stringify (JObj [(''name'', JStr n),
                                            (''status'', JNum (int (status r))),
                                            (''statusText'', JStr (statusText r)),
                                            (''error'', JStr (body_text r))]))
                    \<in> set (snd (callTool w a n args io))))
       \<and> (resolved_apiKey w (Some req) = Some k \<and> resolved_apiKey w' (Some req) = Some k \<and> k \<noteq> []
          \<and> (\<forall>c. apiKey c = k \<longrightarrow>
                (\<exists>v. URL_toString w (baseUrl c @ ''/v1/tool/list'')
                        [(''packId'', ''imageTools''), (''user302'', ''user302'')] = Inr v
                     \<and> fetch w (listTools_request c v) = Inr r)
                \<and> (\<exists>v. URL_toString w' (baseUrl c @ ''/v1/tool/list'')
                        [(''packId'', ''imageTools''), (''user302'', ''user302'')] = Inr v
                     \<and> fetch w' (listTools_request c v) = Inr (r\<lparr>body_text := b\<rparr>))) \<longrightarrow>
            fst (ListTools_handler w' this' io' req) = fst (ListTools_handler w this io req))
       \<and> (resolved_apiKey w (Some req) = Some k \<and> resolved_apiKey w' (Some req) = Some k \<and> k \<noteq> []
          \<and> (\<forall>c. apiKey c = k \<longrightarrow>
                fetch w (callTool_request c (name req) (arguments req)) = Inr r
                \<and> fetch w' (callTool_request c (name req) (arguments req)) = Inr (r\<lparr>body_text := b\<rparr>)) \<longrightarrow>
            fst (CallTool_handler w' this' io' req) = fst (CallTool_handler w this io req))"
proof (intro conjI impI)
  have nb: "\<not> ok (r\<lparr>body_text := b\<rparr>)" using assms by simp
  {
    assume h: "URL_toString w (baseUrl a @ ''/v1/tool/list'')
             [(''packId'', ''imageTools''), (''user302'', ''user302'')] = Inr u
          \<and> fetch w (listTools_request a u) = Inr r
          \<and> URL_toString w' (baseUrl a @ ''/v1/tool/list'')
             [(''packId'', ''imageTools''), (''user302'', ''user302'')] = Inr u'
          \<and> fetch w' (listTools_request a u') = Inr (r\<lparr>body_text := b\<rparr>)"
    from h listTools_http_error [OF assms, of w a u io] listTools_http_error [OF nb, of w' a u' io']
    show "fst (listTools w' a io') = fst (listTools w a io)" by simp
    from h show "\<exists>t. ConsoleError (''['' @ t @ ''] [ERROR] Failed to fetch tools list '' @
                      JSON_stringify (JObj [(''status'', JNum (int (status r))),
                                            (''statusText'', JStr (statusText r)),
                                            (''error'', JStr (body_text r))]))
                    \<in> set (snd (listTools w a io))"
      using listTools_logs_body [OF assms, of w a u io] by blast
  }
  {
    assume h: "fetch w (callTool_request a n args) = Inr r
          \<and> fetch w' (callTool_request a n args) = Inr (r\<lparr>body_text := b\<rparr>)"
    from h callTool_http_error [OF assms, of w a n args io] callTool_http_error [OF nb, of w' a n args io']
    show "fst (callTool w' a n args io') = fst (callTool w a n args io)" by simp
    from h show "\<exists>t. ConsoleError (''['' @ t @ ''] [ERROR] Tool call failed '' @
                      JSON_stringify (JObj [(''name'', JStr n),
                                            (''status'', JNum (int (status r))),
                                            (''statusText'', JStr (statusText r)),
                                            (''error'', JStr (body_text r))]))
                    \<in> set (snd (callTool w a n args io))"
      using callTool_logs_body [OF assms, of w a n args io] by blast
  }
  {
    assume h: "resolved_apiKey w (Some req) = Some k \<and> resolved_apiKey w' (Some req) = Some k \<and> k \<noteq> []
          \<and> (\<forall>c. apiKey c = k \<longrightarrow>
                (\<exists>v. URL_toString w (baseUrl c @ ''/v1/tool/list'')
                        [(''packId'', ''imageTools''), (''user302'', ''user302'')] = Inr v
                     \<and> fetch w (listTools_request c v) = Inr r)
                \<and> (\<exists>v. URL_toString w' (baseUrl c @ ''/v1/tool/list'')
                        [(''packId'', ''imageTools''), (''user302'', ''user302'')] = Inr v
                     \<and> fetch w' (listTools_request c v) = Inr (r\<lparr>body_text := b\<rparr>)))"
    from h obtain c io2 where c: "apiKey c = k"
      and f: "fst (ListTools_handler w this io req) =
               (case fst (listTools w c io2) of Inl e \<Rightarrow> Inl e | Inr tls \<Rightarrow> Inr \<lparr> tools = tls \<rparr>)"
      using ListTools_handler_client [of w req k this io] by blast
    from h obtain c' io2' where c': "apiKey c' = k"
      and f': "fst (ListTools_handler w' this' io' req) =
               (case fst (listTools w' c' io2') of Inl e \<Rightarrow> Inl e | Inr tls \<Rightarrow> Inr \<lparr> tools = tls \<rparr>)"
      using ListTools_handler_client [of w' req k this' io'] by blast
    from h c obtain v where v: "URL_toString w (baseUrl c @ ''/v1/tool/list'')
                        [(''packId'', ''imageTools''), (''user302'', ''user302'')] = Inr v"
      "fetch w (listTools_request c v) = Inr r" by blast
    from h c' obtain v' where v': "URL_toString w' (baseUrl c' @ ''/v1/tool/list'')
                        [(''packId'', ''imageTools''), (''user302'', ''user302'')] = Inr v'"
      "fetch w' (listTools_request c' v') = Inr (r\<lparr>body_text := b\<rparr>)" by blast
    from listTools_http_error [OF assms v, of io2] listTools_http_error [OF nb v', of io2'] f f'
    show "fst (ListTools_handler w' this' io' req) = fst (ListTools_handler w this io req)" by simp
  }
  {
    assume h: "resolved_apiKey w (Some req) = Some k \<and> resolved_apiKey w' (Some req) = Some k \<and> k \<noteq> []
          \<and> (\<forall>c. apiKey c = k \<longrightarrow>
                fetch w (callTool_request c (name req) (arguments req)) = Inr r
                \<and> fetch w' (callTool_request c (name req) (arguments req)) = Inr (r\<lparr>body_text := b\<rparr>))"
    from h obtain c io2 where c: "apiKey c = k"
      and f: "fst (CallTool_handler w this io req) =
               (case fst (callTool w c (name req) (arguments req) io2) of
                  Inl e \<Rightarrow> Inl e
                | Inr cont \<Rightarrow> Inr \<lparr> content = [\<lparr> type' = ''text'',
                                        text' = JSON_stringify_space (JObj [(''content'', cont)]) 2 \<rparr>] \<rparr>)"
      using CallTool_handler_client [of w req k this io] by blast
    from h obtain c' io2' where c': "apiKey c' = k"
      and f': "fst (CallTool_handler w' this' io' req) =
               (case fst (callTool w' c' (name req) (arguments req) io2') of
                  Inl e \<Rightarrow> Inl e
                | Inr cont \<Rightarrow> Inr \<lparr> content = [\<lparr> type' = ''text'',
                                        text' = JSON_stringify_space (JObj [(''content'', cont)]) 2 \<rparr>] \<rparr>)"
      using CallTool_handler_client [of w' req k this' io'] by blast
    from h c have v: "fetch w (callTool_request c (name req) (arguments req)) = Inr r" by blast
    from h c' have v': "fetch w' (callTool_request c' (name req) (arguments req)) = Inr (r\<lparr>body_text := b\<rparr>)"
      by blast
    from callTool_http_error [OF assms v, of io2] callTool_http_error [OF nb v', of io2'] f f'
    show "fst (CallTool_handler w' this' io' req) = fst (CallTool_handler w this io req)" by simp
  }
qed

theorem http_error_hides_body_witness:
  "fst (CallTool_handler
          (example_world (Some ''K'') None
             (answering \<lparr> status = 500, statusText = ''Internal Server Error'', body_text = ''secret'',
                          decoded = Inl (SyntaxError ''Unexpected token'') \<rparr>))
          \<lparr> api = None \<rparr> [] (example_request []))
   = fst (CallTool_handler
          (example_world (Some ''K'') None
             (answering \<lparr> status = 500, statusText = ''Internal Server Error'', body_text = ''boom'',
                          decoded = Inl (SyntaxError ''Unexpected token'') \<rparr>))
          \<lparr> api = None \<rparr> [] (example_request []))
   \<and> (\<exists>t. ConsoleError (''['' @ t @ ''] [ERROR] Tool call failed '' @
             JSON_stringify (JObj [(''name'', JStr ''upscale''), (''status'', JNum 500),
                                   (''statusText'', JStr ''Internal Server Error''),
                                   (''error'', JStr ''boom'')]))
           \<in> set (snd (callTool
                (example_world (Some ''K'') None
                   (answering \<lparr> status = 500, statusText = ''Internal Server Error'', body_text = ''boom'',
                                decoded = Inl (SyntaxError ''Unexpected token'') \<rparr>))
                \<lparr> baseUrl = ''https://api.302.ai/mcp'', apiKey = ''K'' \<rparr> ''upscale'' None [])))"
  using http_error_hides_body [of
          "\<lparr> status = 500, statusText = ''Internal Server Error'', body_text = ''boom'',
             decoded = Inl (SyntaxError ''Unexpected token'') \<rparr>"
          "example_world (Some ''K'') None
             (answering \<lparr> status = 500, statusText = ''Internal Server Error'', body_text = ''boom'',
                          decoded = Inl (SyntaxError ''Unexpected token'') \<rparr>)"
          "\<lparr> baseUrl = ''https://api.302.ai/mcp'', apiKey = ''K'' \<rparr>" "''u''"
          "example_world (Some ''K'') None
             (answering \<lparr> status = 500, statusText = ''Internal Server Error'', body_text = ''secret'',
                          decoded = Inl (SyntaxError ''Unexpected token'') \<rparr>)"
          "''u''" "''secret''" "[]" "[]" "''upscale''" None "example_request []" "''K''"
          "\<lparr> api = None \<rparr>" "\<lparr> api = None \<rparr>"]
  by (simp add: ok_def resolved_apiKey_def js_or_def example_world_def answering_def ai302ApiKey_def truthy_str_def)

end
